theory Spec2Isabelle
  imports Complex_Main "HOL-Library.Monad_Syntax"
begin

section \<open>JavaScript numbers\<close>

text \<open>
  The widget is TypeScript; its \<open>number\<close> is an IEEE binary64 value. A finite number is
  modelled by its exact rational value, the three non-finite values are constructors of
  their own. Negative zero is identified with zero: every function below treats the two
  alike (\<open>-0 < 0\<close> is false, \<open>String(-0)\<close> is \<open>"0"\<close>).
\<close>

datatype jsnum = Fin rat | NaN | PosInf | NegInf

fun is_finite :: "jsnum \<Rightarrow> bool" where
  "is_finite (Fin q) = True"
| "is_finite _ = False"

text \<open>\<open>x < y\<close> on numbers: false as soon as one side is NaN.\<close>

fun num_lt :: "jsnum \<Rightarrow> jsnum \<Rightarrow> bool" where
  "num_lt NaN _ = False"
| "num_lt _ NaN = False"
| "num_lt (Fin a) (Fin b) = (a < b)"
| "num_lt NegInf NegInf = False"
| "num_lt NegInf _ = True"
| "num_lt _ NegInf = False"
| "num_lt PosInf _ = False"
| "num_lt _ PosInf = True"

definition num_ge :: "jsnum \<Rightarrow> jsnum \<Rightarrow> bool" where
  "num_ge x y = (x = y \<and> x \<noteq> NaN \<or> num_lt y x)"

text \<open>Number of binary digits of a natural number.\<close>

fun bitlen_nat :: "nat \<Rightarrow> nat" where
  "bitlen_nat n = (if n = 0 then 0 else Suc (bitlen_nat (n div 2)))"

declare bitlen_nat.simps [simp del]

text \<open>The exponent \<open>e\<close> with \<open>2^e \<le> a < 2^(e+1)\<close>, for a positive rational.\<close>

definition ilog2 :: "rat \<Rightarrow> int" where
  "ilog2 a =
     (if 1 \<le> a then int (bitlen_nat (nat \<lfloor>a\<rfloor>)) - 1
      else - int (bitlen_nat (nat (\<lceil>1 / a\<rceil> - 1))))"

definition round_half_even :: "rat \<Rightarrow> int" where
  "round_half_even q =
     (let f = \<lfloor>q\<rfloor>; r = q - of_int f
      in if r < 1 / 2 then f else if 1 / 2 < r then f + 1 else if even f then f else f + 1)"

definition pow2 :: "int \<Rightarrow> rat" where
  "pow2 e = (if 0 \<le> e then 2 ^ nat e else 1 / 2 ^ nat (- e))"

text \<open>
  Rounding an exact result to binary64, to nearest, ties to even: 53 significant bits,
  the exponent not below -1022 (subnormal numbers), overflow to an infinity.
\<close>

definition fl :: "rat \<Rightarrow> jsnum" where
  "fl q =
     (if q = 0 then Fin 0
      else let a = \<bar>q\<bar>;
               e = max (ilog2 a) (- 1022);
               u = pow2 (e - 52);
               r = of_int (round_half_even (a / u)) * u
           in if pow2 1024 \<le> r then (if q < 0 then NegInf else PosInf)
              else Fin (if q < 0 then - r else r))"

text \<open>\<open>x / c\<close> and \<open>x % c\<close> for a positive finite divisor \<open>c\<close>, the only ones in the code.\<close>

fun fdiv :: "jsnum \<Rightarrow> rat \<Rightarrow> jsnum" where
  "fdiv (Fin a) c = fl (a / c)"
| "fdiv x c = x"

fun fmod :: "jsnum \<Rightarrow> rat \<Rightarrow> jsnum" where
  "fmod (Fin a) c = Fin (a - c * of_int (if 0 \<le> a then \<lfloor>a / c\<rfloor> else \<lceil>a / c\<rceil>))"
| "fmod x c = NaN"

fun math_round :: "jsnum \<Rightarrow> jsnum" where
  "math_round (Fin a) = Fin (of_int \<lfloor>a + 1 / 2\<rfloor>)"
| "math_round x = x"

fun math_floor :: "jsnum \<Rightarrow> jsnum" where
  "math_floor (Fin a) = Fin (of_int \<lfloor>a\<rfloor>)"
| "math_floor x = x"

section \<open>Numbers to strings\<close>

text \<open>The decimal digit \<open>d < 10\<close> as a character.\<close>

definition digit_char :: "nat \<Rightarrow> char" where
  "digit_char d = ''0123456789'' ! d"

fun nat_to_dec :: "nat \<Rightarrow> string" where
  "nat_to_dec n = (if n < 10 then [digit_char n] else nat_to_dec (n div 10) @ [digit_char (n mod 10)])"

declare nat_to_dec.simps [simp del]

text \<open>
  \<open>Number::toString\<close> prints the shortest digits that read back as the same number. For
  an integer below \<open>2^53\<close> in magnitude these are all its decimal digits. For every other
  finite value (a fraction, or an integer from \<open>2^53\<close> on, whose last digits may print as
  zeros) the digits are not modelled and are the parameter \<open>nts\<close>.
\<close>

definition is_integer :: "rat \<Rightarrow> bool" where
  "is_integer q = (of_int \<lfloor>q\<rfloor> = q)"

fun num_to_string :: "(rat \<Rightarrow> string) \<Rightarrow> jsnum \<Rightarrow> string" where
  "num_to_string nts NaN = ''NaN''"
| "num_to_string nts PosInf = ''Infinity''"
| "num_to_string nts NegInf = ''-Infinity''"
| "num_to_string nts (Fin q) =
     (if is_integer q \<and> \<bar>q\<bar> < 2 ^ 53
      then (if q < 0 then ''-'' else '''') @ nat_to_dec (nat \<lfloor>\<bar>q\<bar>\<rfloor>)
      else nts q)"

text \<open>
  \<open>Number.prototype.toFixed(f)\<close>: the integer \<open>n\<close> nearest to \<open>x * 10^f\<close> (the larger one
  on a tie), printed with at least \<open>f + 1\<close> digits and a point before the last \<open>f\<close>.
\<close>

definition to_fixed_digits :: "nat \<Rightarrow> rat \<Rightarrow> string" where
  "to_fixed_digits f x =
     (let n = nat \<lfloor>x * 10 ^ f + 1 / 2\<rfloor>;
          m = nat_to_dec n;
          m' = (if f \<noteq> 0 \<and> length m \<le> f then replicate (f + 1 - length m) CHR ''0'' @ m else m)
      in if f = 0 then m'
         else take (length m' - f) m' @ ''.'' @ drop (length m' - f) m')"

fun to_fixed :: "(rat \<Rightarrow> string) \<Rightarrow> nat \<Rightarrow> jsnum \<Rightarrow> string" where
  "to_fixed nts f (Fin x) =
     (if 10 ^ 21 \<le> \<bar>x\<bar> then num_to_string nts (Fin x)
      else (if x < 0 then ''-'' else '''') @ to_fixed_digits f \<bar>x\<bar>)"
| "to_fixed nts f x = num_to_string nts x"

section \<open>Formatting durations, runtimes and token counts\<close>

definition format_duration_ms :: "(rat \<Rightarrow> string) \<Rightarrow> jsnum \<Rightarrow> string" where
  "format_duration_ms nts duration_ms =
     (if \<not> is_finite duration_ms \<or> num_lt duration_ms (Fin 0) then ''''
      else if num_lt duration_ms (Fin 1000)
        then num_to_string nts (math_round duration_ms) @ ''ms''
      else let seconds = fdiv duration_ms 1000 in
        if num_lt seconds (Fin 60)
        then to_fixed nts (if num_lt seconds (Fin 10) then 1 else 0) seconds @ ''s''
        else let minutes = math_floor (fdiv seconds 60);
                 rem_seconds = math_round (fmod seconds 60)
             in num_to_string nts minutes @ ''m '' @ num_to_string nts rem_seconds @ ''s'')"

definition format_runtime_sec :: "(rat \<Rightarrow> string) \<Rightarrow> jsnum \<Rightarrow> string" where
  "format_runtime_sec nts runtime_sec =
     (if \<not> is_finite runtime_sec \<or> num_lt runtime_sec (Fin 0) then ''''
      else if num_lt runtime_sec (Fin 60)
        then to_fixed nts (if num_lt runtime_sec (Fin 10) then 1 else 0) runtime_sec @ ''s''
      else let minutes = math_floor (fdiv runtime_sec 60);
               rem_seconds = math_round (fmod runtime_sec 60)
           in num_to_string nts minutes @ ''m '' @ num_to_string nts rem_seconds @ ''s'')"

definition format_tokens :: "(rat \<Rightarrow> string) \<Rightarrow> jsnum \<Rightarrow> string" where
  "format_tokens nts tokens =
     (if \<not> is_finite tokens \<or> num_lt tokens (Fin 0) then ''''
      else if num_ge tokens (Fin 1000000)
        then to_fixed nts 1 (fdiv tokens 1000000) @ ''M tok''
      else if num_ge tokens (Fin 1000)
        then to_fixed nts 1 (fdiv tokens 1000) @ ''k tok''
      else num_to_string nts (math_round tokens) @ '' tok'')"

section \<open>Strings\<close>

text \<open>
  A string of the widget is a sequence of UTF-16 code units; the model keeps the code
  units below 256 (Latin-1), one \<open>char\<close> each. On these, \<open>trim\<close> removes TAB, LF, VT,
  FF, CR, SPACE and NBSP at both ends, and \<open>toLowerCase\<close> maps \<open>A..Z\<close> and the capital
  letters \<open>U+00C0..U+00DE\<close> (without the multiplication sign \<open>U+00D7\<close>) 32 places up.
\<close>

definition is_ws :: "char \<Rightarrow> bool" where
  "is_ws c = (of_char c \<in> {9, 10, 11, 12, 13, 32, 160 :: nat})"

definition trim :: "string \<Rightarrow> string" where
  "trim s = rev (dropWhile is_ws (rev (dropWhile is_ws s)))"

definition lower_char :: "char \<Rightarrow> char" where
  "lower_char c =
     (let n = of_char c :: nat
      in if 65 \<le> n \<and> n \<le> 90 \<or> 192 \<le> n \<and> n \<le> 222 \<and> n \<noteq> 215 then char_of (n + 32) else c)"

definition toLowerCase :: "string \<Rightarrow> string" where
  "toLowerCase s = map lower_char s"

text \<open>\<open>xs.join(sep)\<close> on an array of strings.\<close>

fun join :: "string \<Rightarrow> string list \<Rightarrow> string" where
  "join sep [] = []"
| "join sep [x] = x"
| "join sep (x # y # ys) = x @ sep @ join sep (y # ys)"

section \<open>Status strings\<close>

text \<open>The result is the pair \<open>(status, label)\<close> of the source's \<open>{status, label}\<close>.\<close>

definition normalize_plan_step_status :: "string \<Rightarrow> string \<times> string" where
  "normalize_plan_step_status raw_status =
     (let raw = trim raw_status; s = toLowerCase raw
      in if s \<in> set [''ok'', ''success'', ''completed'', ''complete'', ''done''] then (''ok'', ''Done'')
         else if s \<in> set [''error'', ''failed'', ''failure''] then (''error'', ''Error'')
         else if s \<in> set [''running'', ''in_progress'', ''in-progress'', ''started'']
           then (''running'', ''In progress'')
         else if s \<in> set [''pending'', ''queued'', ''queue'', ''todo''] then (''pending'', ''Todo'')
         else (''unknown'', if raw = [] then [] else raw))"

definition normalize_subagent_status :: "string \<Rightarrow> string \<times> string" where
  "normalize_subagent_status raw_status =
     (let raw = trim raw_status; s = toLowerCase raw
      in if s \<in> set [''ok'', ''success'', ''completed'', ''complete''] then (''ok'', ''OK'')
         else if s \<in> set [''error'', ''failed'', ''failure''] then (''error'', ''Error'')
         else if s \<in> set [''running'', ''in_progress'', ''in-progress'', ''started'']
           then (''running'', ''Running'')
         else (''unknown'', if raw = [] then ''Unknown'' else raw))"

definition normalize_background_task_status :: "string \<Rightarrow> string \<times> string" where
  "normalize_background_task_status raw_status =
     (let raw = trim raw_status; s = toLowerCase raw
      in if s \<in> set [''ok'', ''success'', ''completed'', ''complete''] then (''ok'', ''OK'')
         else if s \<in> set [''error'', ''failed'', ''failure''] then (''error'', ''Error'')
         else if s \<in> set [''running'', ''in_progress'', ''in-progress'', ''started'']
           then (''running'', ''Running'')
         else if s \<in> set [''pending'', ''queued'', ''queue''] then (''pending'', ''Pending'')
         else if s \<in> set [''aborted'', ''canceled'', ''cancelled''] then (''aborted'', ''Aborted'')
         else (''unknown'', if raw = [] then ''Unknown'' else raw))"

definition default_title_for_turn_kind :: "string \<Rightarrow> string" where
  "default_title_for_turn_kind kind =
     (if kind = ''subagent_group'' then ''Subagents''
      else if kind = ''tool'' then ''Tool''
      else if kind = ''assistant'' then ''Assistant''
      else ''Agent output'')"

section \<open>Payload values\<close>

text \<open>
  Payloads arrive as parsed JSON. An object is its list of entries, read with \<open>map_of\<close>;
  \<open>undefined\<close> (a missing property, a missing argument) is \<open>None\<close> of \<open>json option\<close>.
\<close>

datatype json =
    JNull
  | JBool bool
  | JNum jsnum
  | JStr string
  | JArr "json list"
  | JObj "(string \<times> json) list"

text \<open>
  \<open>v.k\<close> for a value that is neither null nor undefined. Only plain objects have the
  properties the widget reads; on a string, number, boolean or array they are undefined.
  The keys of an object are taken to be distinct, as they are in a parsed payload.
\<close>

fun get_prop :: "json \<Rightarrow> string \<Rightarrow> json option" where
  "get_prop (JObj kvs) k = map_of kvs k"
| "get_prop _ k = None"

text \<open>\<open>v?.k\<close>: undefined when \<open>v\<close> is null or undefined.\<close>

fun oprop :: "json option \<Rightarrow> string \<Rightarrow> json option" where
  "oprop None k = None"
| "oprop (Some v) k = get_prop v k"

fun truthy :: "json option \<Rightarrow> bool" where
  "truthy None = False"
| "truthy (Some JNull) = False"
| "truthy (Some (JBool b)) = b"
| "truthy (Some (JNum n)) = (n \<noteq> Fin 0 \<and> n \<noteq> NaN)"
| "truthy (Some (JStr s)) = (s \<noteq> [])"
| "truthy (Some (JArr xs)) = True"
| "truthy (Some (JObj kvs)) = True"

text \<open>\<open>a || b\<close> and \<open>a ?? b\<close> with a right operand that is defined.\<close>

definition js_or :: "json option \<Rightarrow> json \<Rightarrow> json" where
  "js_or a b = (case a of None \<Rightarrow> b | Some v \<Rightarrow> if truthy (Some v) then v else b)"

definition nullish :: "json option \<Rightarrow> json \<Rightarrow> json" where
  "nullish a b = (case a of None \<Rightarrow> b | Some JNull \<Rightarrow> b | Some v \<Rightarrow> v)"

text \<open>\<open>typeof v === "object"\<close> (which holds for null as well) and \<open>Array.isArray\<close>.\<close>

fun typeof_object :: "json option \<Rightarrow> bool" where
  "typeof_object (Some JNull) = True"
| "typeof_object (Some (JArr xs)) = True"
| "typeof_object (Some (JObj kvs)) = True"
| "typeof_object _ = False"

section \<open>Errors\<close>

text \<open>
  Reading a property of null or undefined throws a \<open>TypeError\<close>, and so does converting
  to a string an object that cannot be converted; a failed \<open>assert\<close> throws too.
\<close>

datatype js_error = TypeError | AssertionError

text \<open>
  \<open>String(v)\<close>. An object is converted by its \<open>toString\<close> method. A parsed object
  inherits the method that prints \<open>[object Object]\<close>, unless it has a key \<open>toString\<close> of
  its own: the value under that key is not a function, the inherited \<open>valueOf\<close> returns
  the object itself, and the conversion throws a \<open>TypeError\<close>. An array prints its
  elements joined by commas, null ones as empty, and throws when one of them does.
\<close>

fun to_string_throws :: "json \<Rightarrow> bool" where
  "to_string_throws (JObj kvs) = (map_of kvs ''toString'' \<noteq> None)"
| "to_string_throws (JArr xs) = list_ex to_string_throws xs"
| "to_string_throws _ = False"

fun to_string_text :: "(rat \<Rightarrow> string) \<Rightarrow> json \<Rightarrow> string" where
  "to_string_text nts JNull = ''null''"
| "to_string_text nts (JBool b) = (if b then ''true'' else ''false'')"
| "to_string_text nts (JNum n) = num_to_string nts n"
| "to_string_text nts (JStr s) = s"
| "to_string_text nts (JArr xs) =
     join '','' (map (\<lambda>x. if x = JNull then [] else to_string_text nts x) xs)"
| "to_string_text nts (JObj kvs) = ''[object Object]''"

definition js_String :: "(rat \<Rightarrow> string) \<Rightarrow> json \<Rightarrow> js_error + string" where
  "js_String nts v = (if to_string_throws v then Inl TypeError else Inr (to_string_text nts v))"

section \<open>Schemas\<close>

text \<open>
  The schemas are \<open>zod\<close> validators. \<open>safeParse\<close> is modelled as a function to \<open>option\<close>:
  \<open>None\<close> is a failed parse. \<open>z.string()\<close> accepts strings only, \<open>z.number()\<close> finite
  numbers only, \<open>z.int()\<close> safe integers, \<open>z.optional(s)\<close> accepts undefined as well (and
  not null), \<open>z.array(s)\<close> arrays all of whose elements pass \<open>s\<close>, and \<open>z.object\<close> plain
  objects only, ignoring the keys it does not declare.
\<close>

fun zod_string :: "json \<Rightarrow> string option" where
  "zod_string (JStr s) = Some s"
| "zod_string _ = None"

fun zod_number :: "json \<Rightarrow> rat option" where
  "zod_number (JNum (Fin q)) = Some q"
| "zod_number _ = None"

definition zod_int_nonnegative :: "json \<Rightarrow> rat option" where
  "zod_int_nonnegative v =
     (case zod_number v of
        None \<Rightarrow> None
      | Some q \<Rightarrow> if is_integer q \<and> \<bar>q\<bar> \<le> 9007199254740991 \<and> 0 \<le> q then Some q else None)"

definition zod_optional :: "(json \<Rightarrow> 'a option) \<Rightarrow> json option \<Rightarrow> 'a option option" where
  "zod_optional p v = (case v of None \<Rightarrow> Some None | Some x \<Rightarrow> map_option Some (p x))"

fun zod_array :: "(json \<Rightarrow> 'a option) \<Rightarrow> json \<Rightarrow> 'a list option" where
  "zod_array p (JArr xs) = those (map p xs)"
| "zod_array p _ = None"

definition zod_enum :: "string list \<Rightarrow> json \<Rightarrow> string option" where
  "zod_enum vs v = (case v of JStr s \<Rightarrow> if s \<in> set vs then Some s else None | _ \<Rightarrow> None)"

fun is_plain_object :: "json \<Rightarrow> bool" where
  "is_plain_object (JObj kvs) = True"
| "is_plain_object _ = False"

record subagent =
  ag_type :: "string option"
  ag_description :: "string option"
  ag_status :: "string option"
  ag_toolCount :: "rat option"
  ag_totalTokens :: "rat option"
  ag_durationMs :: "rat option"
  ag_agentURL :: "string option"
  ag_model :: "string option"
  ag_error :: "string option"

definition sp_ai_subagent_schema :: "json \<Rightarrow> subagent option" where
  "sp_ai_subagent_schema v =
     (if \<not> is_plain_object v then None
      else do {
        ty \<leftarrow> zod_optional zod_string (get_prop v ''type'');
        description \<leftarrow> zod_optional zod_string (get_prop v ''description'');
        status \<leftarrow> zod_optional zod_string (get_prop v ''status'');
        toolCount \<leftarrow> zod_optional zod_int_nonnegative (get_prop v ''toolCount'');
        totalTokens \<leftarrow> zod_optional zod_int_nonnegative (get_prop v ''totalTokens'');
        durationMs \<leftarrow> zod_optional zod_int_nonnegative (get_prop v ''durationMs'');
        agentURL \<leftarrow> zod_optional zod_string (get_prop v ''agentURL'');
        model \<leftarrow> zod_optional zod_string (get_prop v ''model'');
        error \<leftarrow> zod_optional zod_string (get_prop v ''error'');
        Some \<lparr>ag_type = ty, ag_description = description, ag_status = status,
              ag_toolCount = toolCount, ag_totalTokens = totalTokens, ag_durationMs = durationMs,
              ag_agentURL = agentURL, ag_model = model, ag_error = error\<rparr>
      })"

record subagent_group_block =
  sg_title :: "string option"
  sg_agents :: "subagent list option"
  sg_text :: "string option"

definition sp_ai_subagent_group_block_schema :: "json \<Rightarrow> subagent_group_block option" where
  "sp_ai_subagent_group_block_schema v =
     (if \<not> is_plain_object v then None
      else if get_prop v ''kind'' \<noteq> Some (JStr ''subagent_group'') then None
      else do {
        title \<leftarrow> zod_optional zod_string (get_prop v ''title'');
        agents \<leftarrow> zod_optional (zod_array sp_ai_subagent_schema) (get_prop v ''agents'');
        text \<leftarrow> zod_optional zod_string (get_prop v ''text'');
        Some \<lparr>sg_title = title, sg_agents = agents, sg_text = text\<rparr>
      })"

text \<open>
  A background task is validated and then read back as the raw object (the schema lets
  every other key through), so the parse returns the task itself.
\<close>

definition sp_ai_background_task_schema :: "json \<Rightarrow> json option" where
  "sp_ai_background_task_schema v =
     (if \<not> is_plain_object v then None
      else do {
        _ \<leftarrow> zod_optional zod_string (get_prop v ''id'');
        _ \<leftarrow> zod_optional zod_string (get_prop v ''description'');
        _ \<leftarrow> zod_optional zod_string (get_prop v ''command'');
        _ \<leftarrow> zod_optional zod_string (get_prop v ''status'');
        _ \<leftarrow> zod_optional zod_number (get_prop v ''runtimeSec'');
        _ \<leftarrow> zod_optional zod_string (get_prop v ''outputPreview'');
        _ \<leftarrow> zod_optional zod_number (get_prop v ''exitCode'');
        _ \<leftarrow> zod_optional zod_string (get_prop v ''error'');
        Some v
      })"

record background_tasks_block =
  bt_title :: "string option"
  bt_tasks :: "json list option"

definition sp_ai_background_tasks_block_schema :: "json \<Rightarrow> background_tasks_block option" where
  "sp_ai_background_tasks_block_schema v =
     (if \<not> is_plain_object v then None
      else if get_prop v ''kind'' \<noteq> Some (JStr ''background_tasks'')
            \<and> get_prop v ''kind'' \<noteq> Some (JStr ''bash_tasks'') then None
      else do {
        title \<leftarrow> zod_optional zod_string (get_prop v ''title'');
        tasks \<leftarrow> zod_optional (zod_array sp_ai_background_task_schema) (get_prop v ''tasks'');
        Some \<lparr>bt_title = title, bt_tasks = tasks\<rparr>
      })"

text \<open>
  Modelled from the spec: \<open>sp_ai_plan_v2_block_schema\<close> and \<open>sp_ai_todo_v2_block_schema\<close>
  are imported by the widget and their declarations are not among the sources. The spec
  gives a structured plan block ordered \<open>steps: {step, status}\<close> and a structured todo
  block ordered \<open>items: {text, checked}\<close>, each with an optional title; the two parsers
  themselves are parameters of the model (fields of \<open>env\<close> below).
\<close>

record plan_v2_row =
  pr_step :: "string option"
  pr_status :: "string option"

record plan_v2_block =
  pv_title :: "string option"
  pv_steps :: "plan_v2_row list option"

record todo_v2_row =
  tr_text :: "string option"
  tr_checked :: "bool option"

record todo_v2_block =
  tv_title :: "string option"
  tv_items :: "todo_v2_row list option"

text \<open>
  What the model takes as given: the two schemas above, and the library functions the
  widget calls that the model does not define, \<open>Number::toString\<close> outside the integers
  below \<open>2^53\<close>, \<open>JSON.stringify(v, null, 2)\<close> and \<open>JSON.parse\<close> (\<open>None\<close> when it throws).
  Every theorem holds for all of them.
\<close>

record env =
  number_to_string :: "rat \<Rightarrow> string"
  json_stringify :: "json \<Rightarrow> string"
  json_parse :: "string \<Rightarrow> json option"
  sp_ai_plan_v2_block_schema :: "json \<Rightarrow> plan_v2_block option"
  sp_ai_todo_v2_block_schema :: "json \<Rightarrow> todo_v2_block option"

text \<open>\<open>stringify_unknown\<close>: \<open>JSON.stringify(undefined)\<close> is undefined, not a string.\<close>

fun stringify_value :: "env \<Rightarrow> json \<Rightarrow> string" where
  "stringify_value bi (JStr s) = s"
| "stringify_value bi v = json_stringify bi v"

definition stringify_unknown :: "env \<Rightarrow> json option \<Rightarrow> string option" where
  "stringify_unknown bi v = map_option (stringify_value bi) v"

definition starts_with :: "string \<Rightarrow> char \<Rightarrow> bool" where
  "starts_with s c = (s \<noteq> [] \<and> hd s = c)"

definition ends_with :: "string \<Rightarrow> char \<Rightarrow> bool" where
  "ends_with s c = (s \<noteq> [] \<and> last s = c)"

text \<open>\<open>try_pretty_json\<close>; its argument may be undefined.\<close>

definition try_pretty_json :: "env \<Rightarrow> string option \<Rightarrow> string option" where
  "try_pretty_json bi text =
     (let trimmed = trim (case text of None \<Rightarrow> [] | Some t \<Rightarrow> t)
      in if trimmed = [] then None
         else if \<not> (starts_with trimmed CHR ''{'' \<and> ends_with trimmed CHR ''}''
                     \<or> starts_with trimmed CHR ''['' \<and> ends_with trimmed CHR '']'') then None
         else map_option (json_stringify bi) (json_parse bi trimmed))"

text \<open>\<open>typeof v === "string" ? v : d\<close>.\<close>

definition string_or :: "json option \<Rightarrow> string \<Rightarrow> string" where
  "string_or v d = (case v of Some (JStr s) \<Rightarrow> s | _ \<Rightarrow> d)"

definition opt_or :: "'a option \<Rightarrow> 'a \<Rightarrow> 'a" where
  "opt_or v d = (case v of None \<Rightarrow> d | Some x \<Rightarrow> x)"

section \<open>The block array\<close>

text \<open>
  The block array the four extractors scan: \<open>extra_data.turn?.blocks\<close> when it is an
  array, the empty array otherwise. \<open>extra_data.turn\<close> throws on null and undefined.
\<close>

definition turn_blocks_of :: "json option \<Rightarrow> js_error + json list" where
  "turn_blocks_of extra_data =
     (case extra_data of
        None \<Rightarrow> Inl TypeError
      | Some JNull \<Rightarrow> Inl TypeError
      | Some v \<Rightarrow>
          (case oprop (get_prop v ''turn'') ''blocks'' of
             Some (JArr blocks) \<Rightarrow> Inr blocks
           | _ \<Rightarrow> Inr []))"

section \<open>Specialised extractors\<close>

record PlanStepTemplate =
  ps_step_index :: nat
  ps_step :: string
  ps_status :: string
  ps_status_label :: string

record PlanGroupTemplate =
  pg_group_index :: nat
  pg_title :: string
  pg_steps :: "PlanStepTemplate list"

text \<open>\<open>xs.map((x, i) => f(x, i))\<close>: the elements with their positions.\<close>

definition with_index :: "'a list \<Rightarrow> (nat \<times> 'a) list" where
  "with_index xs = enumerate 0 xs"

definition plan_v2_steps :: "plan_v2_row list \<Rightarrow> PlanStepTemplate list" where
  "plan_v2_steps raw_steps =
     List.map_filter
       (\<lambda>(step_index, row).
          let step = trim (opt_or (pr_step row) []);
              (status, label) = normalize_plan_step_status (opt_or (pr_status row) [])
          in if step = [] then None
             else Some \<lparr>ps_step_index = step_index, ps_step = step, ps_status = status,
                        ps_status_label = label\<rparr>)
       (with_index raw_steps)"

definition legacy_plan_items :: "json list \<Rightarrow> string list" where
  "legacy_plan_items raw_items =
     filter (\<lambda>s. s \<noteq> []) (map (\<lambda>x. case x of JStr s \<Rightarrow> trim s | _ \<Rightarrow> []) raw_items)"

text \<open>\<open>block && typeof block === "object" ? block : {}\<close>.\<close>

definition as_record :: "json \<Rightarrow> json" where
  "as_record block = (if truthy (Some block) \<and> typeof_object (Some block) then block else JObj [])"

definition array_or_empty :: "json option \<Rightarrow> json list" where
  "array_or_empty v = (case v of Some (JArr xs) \<Rightarrow> xs | _ \<Rightarrow> [])"

text \<open>
  A \<open>for ... of\<close> loop whose body may throw: the body is applied to the elements in
  order, and the first exception ends the loop and is the outcome.
\<close>

fun for_of :: "('x \<Rightarrow> 's \<Rightarrow> js_error + 's) \<Rightarrow> 'x list \<Rightarrow> 's \<Rightarrow> js_error + 's" where
  "for_of body [] acc = Inr acc"
| "for_of body (x # xs) acc =
     (case body x acc of Inl e \<Rightarrow> Inl e | Inr acc' \<Rightarrow> for_of body xs acc')"

text \<open>
  One pass of a loop body either leaves the accumulators as they are (\<open>continue\<close>) or
  pushes a group and adds the index to the skip set. The plan loop, one block at a time;
  the accumulator is \<open>(groups, skip_block_indexes, group_index)\<close>. On a block that is not
  a structured plan the body converts \<open>rec.kind || ""\<close> to a string, which may throw.
\<close>

definition plan_step ::
  "env \<Rightarrow> nat \<times> json \<Rightarrow> PlanGroupTemplate list \<times> nat set \<times> nat
     \<Rightarrow> js_error + PlanGroupTemplate list \<times> nat set \<times> nat" where
  "plan_step bi ib acc =
     (let (index, block) = ib; (groups, skip_block_indexes, group_index) = acc
      in case sp_ai_plan_v2_block_schema bi block of
           Some parsed \<Rightarrow>
             (let raw_steps = opt_or (pv_steps parsed) []
              in if raw_steps = [] then Inr acc
                 else let steps = plan_v2_steps raw_steps
                      in if steps = [] then Inr acc
                         else Inr (groups @ [\<lparr>pg_group_index = group_index,
                                                      pg_title = opt_or (pv_title parsed) [],
                                                      pg_steps = steps\<rparr>],
                                   insert index skip_block_indexes, group_index + 1))
         | None \<Rightarrow>
             (let rec = as_record block
              in case js_String (number_to_string bi) (js_or (get_prop rec ''kind'') (JStr [])) of
                   Inl e \<Rightarrow> Inl e
                 | Inr kind_text \<Rightarrow>
                     if kind_text \<noteq> ''plan'' then Inr acc
                     else let items = legacy_plan_items (array_or_empty (get_prop rec ''items''))
                          in if items = [] then Inr acc
                             else Inr (groups @ [\<lparr>pg_group_index = group_index,
                                                          pg_title = string_or (get_prop rec ''title'') [],
                                                          pg_steps =
                                                            map (\<lambda>(step_index, step).
                                                                   \<lparr>ps_step_index = step_index,
                                                                    ps_step = step,
                                                                    ps_status = ''unknown'',
                                                                    ps_status_label = []\<rparr>)
                                                              (with_index items)\<rparr>],
                                       insert index skip_block_indexes, group_index + 1)))"

record plan_result =
  pl_section_title :: string
  pl_groups :: "PlanGroupTemplate list"
  pl_skip_block_indexes :: "nat set"

definition plan_loop ::
  "env \<Rightarrow> json list \<Rightarrow> js_error + PlanGroupTemplate list \<times> nat set \<times> nat" where
  "plan_loop bi blocks = for_of (plan_step bi) (with_index blocks) ([], {}, 0)"

definition normalize_plan_blocks :: "env \<Rightarrow> json option \<Rightarrow> js_error + plan_result" where
  "normalize_plan_blocks bi extra_data =
     (case turn_blocks_of extra_data of
        Inl e \<Rightarrow> Inl e
      | Inr blocks \<Rightarrow>
          (case plan_loop bi blocks of
             Inl e \<Rightarrow> Inl e
           | Inr (groups, skip, n) \<Rightarrow>
               Inr \<lparr>pl_section_title =
                       (case groups of [g] \<Rightarrow> if trim (pg_title g) \<noteq> [] then pg_title g else ''Plan''
                        | _ \<Rightarrow> ''Plan''),
                     pl_groups = groups,
                     pl_skip_block_indexes = skip\<rparr>))"

record TodoItemTemplate =
  ti_item_index :: nat
  ti_text :: string
  ti_checked :: bool

record TodoGroupTemplate =
  tg_group_index :: nat
  tg_title :: string
  tg_items :: "TodoItemTemplate list"

definition todo_v2_items :: "todo_v2_row list \<Rightarrow> TodoItemTemplate list" where
  "todo_v2_items raw_items =
     List.map_filter
       (\<lambda>(item_index, row).
          let text = trim (opt_or (tr_text row) [])
          in if text = [] then None
             else Some \<lparr>ti_item_index = item_index, ti_text = text,
                        ti_checked = (tr_checked row = Some True)\<rparr>)
       (with_index raw_items)"

text \<open>
  The pattern \<open>/^\s*\[( |x|X)\]\s+([\s\S]*)$/\<close>: the mark between the brackets and what
  follows the (longest) run of white space after them.
\<close>

definition todo_match :: "string \<Rightarrow> (char \<times> string) option" where
  "todo_match s =
     (case dropWhile is_ws s of
        a # c # b # w # rest \<Rightarrow>
          if a = CHR ''['' \<and> c \<in> set [CHR '' '', CHR ''x'', CHR ''X''] \<and> b = CHR '']'' \<and> is_ws w
          then Some (c, dropWhile is_ws rest) else None
      | _ \<Rightarrow> None)"

definition legacy_todo_items :: "json list \<Rightarrow> TodoItemTemplate list" where
  "legacy_todo_items raw_items =
     List.map_filter
       (\<lambda>(item_index, raw).
          case raw of
            JStr r \<Rightarrow>
              (case todo_match (trim r) of
                 None \<Rightarrow> None
               | Some (mark, m2) \<Rightarrow>
                   let text = trim m2
                   in if text = [] then None
                      else Some \<lparr>ti_item_index = item_index, ti_text = text,
                                 ti_checked = (toLowerCase [mark] = ''x'')\<rparr>)
          | _ \<Rightarrow> None)
       (with_index raw_items)"

definition todo_step ::
  "env \<Rightarrow> nat \<times> json \<Rightarrow> TodoGroupTemplate list \<times> nat set \<times> nat
     \<Rightarrow> js_error + TodoGroupTemplate list \<times> nat set \<times> nat" where
  "todo_step bi ib acc =
     (let (index, block) = ib; (groups, skip_block_indexes, group_index) = acc
      in case sp_ai_todo_v2_block_schema bi block of
           Some parsed \<Rightarrow>
             (let raw_items = opt_or (tv_items parsed) []
              in if raw_items = [] then Inr acc
                 else let items = todo_v2_items raw_items
                      in if items = [] then Inr acc
                         else Inr (groups @ [\<lparr>tg_group_index = group_index,
                                                      tg_title = opt_or (tv_title parsed) [],
                                                      tg_items = items\<rparr>],
                                   insert index skip_block_indexes, group_index + 1))
         | None \<Rightarrow>
             (let rec = as_record block
              in case js_String (number_to_string bi) (js_or (get_prop rec ''kind'') (JStr [])) of
                   Inl e \<Rightarrow> Inl e
                 | Inr kind_text \<Rightarrow>
                     if kind_text \<noteq> ''todo'' then Inr acc
                     else let items = legacy_todo_items (array_or_empty (get_prop rec ''items''))
                          in if items = [] then Inr acc
                             else Inr (groups @ [\<lparr>tg_group_index = group_index,
                                                          tg_title = string_or (get_prop rec ''title'') [],
                                                          tg_items = items\<rparr>],
                                       insert index skip_block_indexes, group_index + 1)))"

record todo_result =
  td_section_title :: string
  td_groups :: "TodoGroupTemplate list"
  td_skip_block_indexes :: "nat set"

definition todo_loop ::
  "env \<Rightarrow> json list \<Rightarrow> js_error + TodoGroupTemplate list \<times> nat set \<times> nat" where
  "todo_loop bi blocks = for_of (todo_step bi) (with_index blocks) ([], {}, 0)"

definition normalize_todo_blocks :: "env \<Rightarrow> json option \<Rightarrow> js_error + todo_result" where
  "normalize_todo_blocks bi extra_data =
     (case turn_blocks_of extra_data of
        Inl e \<Rightarrow> Inl e
      | Inr blocks \<Rightarrow>
          (case todo_loop bi blocks of
             Inl e \<Rightarrow> Inl e
           | Inr (groups, skip, n) \<Rightarrow>
               Inr \<lparr>td_section_title =
                       (case groups of [g] \<Rightarrow> if trim (tg_title g) \<noteq> [] then tg_title g else ''Todo''
                        | _ \<Rightarrow> ''Todo''),
                     td_groups = groups,
                     td_skip_block_indexes = skip\<rparr>))"

type_synonym SubagentStatusClass = string

record SubagentTemplate =
  sa_type :: string
  sa_description :: string
  sa_status :: SubagentStatusClass
  sa_status_label :: string
  sa_meta_line :: string
  sa_agentURL :: string
  sa_error :: string

record SubagentGroupTemplate =
  sgt_title :: string
  sgt_agents :: "SubagentTemplate list"
  sgt_fallback_text :: string

text \<open>The separator of a meta line: space, middle dot (\<open>U+00B7\<close>), space.\<close>

definition meta_sep :: string where
  "meta_sep = [CHR '' '', char_of (183 :: nat), CHR '' '']"

definition normalize_agent :: "env \<Rightarrow> subagent \<Rightarrow> SubagentTemplate" where
  "normalize_agent bi agent =
     (let (status, label) = normalize_subagent_status (opt_or (ag_status agent) []);
          ty = (case ag_type agent of None \<Rightarrow> [] | Some t \<Rightarrow> trim t);
          meta_parts =
            (case ag_toolCount agent of
               None \<Rightarrow> []
             | Some n \<Rightarrow> [num_to_string (number_to_string bi) (Fin n) @ '' tool''
                           @ (if n = 1 then [] else ''s'')])
            @ (case ag_totalTokens agent of
                 None \<Rightarrow> []
               | Some n \<Rightarrow> let tok = format_tokens (number_to_string bi) (Fin n)
                           in if tok \<noteq> [] then [tok] else [])
            @ (case ag_durationMs agent of
                 None \<Rightarrow> []
               | Some n \<Rightarrow> let dur = format_duration_ms (number_to_string bi) (Fin n)
                           in if dur \<noteq> [] then [dur] else [])
            @ (case ag_model agent of
                 None \<Rightarrow> []
               | Some m \<Rightarrow> if trim m \<noteq> [] then [trim m] else [])
      in \<lparr>sa_type = (if ty \<noteq> [] then ty else ''subagent''),
          sa_description = opt_or (ag_description agent) [],
          sa_status = status,
          sa_status_label = label,
          sa_meta_line = join meta_sep meta_parts,
          sa_agentURL = opt_or (ag_agentURL agent) [],
          sa_error = opt_or (ag_error agent) []\<rparr>)"

text \<open>The subagent loop; the accumulator is \<open>(groups, skip_block_indexes)\<close>.\<close>

definition subagent_step ::
  "env \<Rightarrow> nat \<times> json \<Rightarrow> SubagentGroupTemplate list \<times> nat set
     \<Rightarrow> SubagentGroupTemplate list \<times> nat set" where
  "subagent_step bi ib acc =
     (let (index, block) = ib; (groups, skip_block_indexes) = acc
      in case sp_ai_subagent_group_block_schema block of
           None \<Rightarrow> acc
         | Some parsed \<Rightarrow>
             (let agents = opt_or (sg_agents parsed) [];
                  fallback_text = opt_or (sg_text parsed) []
              in if agents = [] \<and> fallback_text = [] then acc
                 else (groups @ [\<lparr>sgt_title = opt_or (sg_title parsed) [],
                                              sgt_agents = map (normalize_agent bi) agents,
                                              sgt_fallback_text = fallback_text\<rparr>],
                       insert index skip_block_indexes)))"

record subagent_result =
  sr_turn_kind :: json
  sr_turn_kind_label :: string
  sr_section_title :: string
  sr_groups :: "SubagentGroupTemplate list"
  sr_skip_block_indexes :: "nat set"

text \<open>
  \<open>turn_kind\<close> is \<open>extra_data.turn?.kind ?? ""\<close>, whatever value the payload holds there;
  \<open>default_title_for_turn_kind\<close> compares it with three strings.
\<close>

definition turn_kind_label_of :: "json \<Rightarrow> string" where
  "turn_kind_label_of turn_kind =
     (if turn_kind = JStr [] then []
      else case turn_kind of JStr k \<Rightarrow> default_title_for_turn_kind k | _ \<Rightarrow> ''Agent output'')"

text \<open>The \<open>for\<close> loop over \<open>blocks.entries()\<close>, from the empty accumulators.\<close>

definition subagent_loop :: "env \<Rightarrow> json list \<Rightarrow> SubagentGroupTemplate list \<times> nat set" where
  "subagent_loop bi blocks = foldl (\<lambda>acc ib. subagent_step bi ib acc) ([], {}) (with_index blocks)"

definition normalize_subagent_groups :: "env \<Rightarrow> json option \<Rightarrow> js_error + subagent_result" where
  "normalize_subagent_groups bi extra_data =
     (case turn_blocks_of extra_data of
        Inl e \<Rightarrow> Inl e
      | Inr blocks \<Rightarrow>
          (let turn_kind = nullish (oprop (oprop extra_data ''turn'') ''kind'') (JStr []);
               (groups, skip) = subagent_loop bi blocks
           in Inr \<lparr>sr_turn_kind = turn_kind,
                   sr_turn_kind_label = turn_kind_label_of turn_kind,
                   sr_section_title =
                     (case groups of
                        [g] \<Rightarrow> if trim (sgt_title g) \<noteq> [] then sgt_title g else ''Subagents''
                      | _ \<Rightarrow> ''Subagents''),
                   sr_groups = groups,
                   sr_skip_block_indexes = skip\<rparr>))"

type_synonym BackgroundTaskStatusClass = string

record BackgroundTaskTemplate =
  bg_task_index :: nat
  bg_description :: string
  bg_command :: string
  bg_status :: BackgroundTaskStatusClass
  bg_status_label :: string
  bg_meta_line :: string
  bg_has_output_preview :: bool
  bg_output_preview :: string
  bg_error :: string

record BackgroundTasksGroupTemplate =
  bgg_group_index :: nat
  bgg_title :: string
  bgg_tasks :: "BackgroundTaskTemplate list"

definition normalize_task :: "env \<Rightarrow> nat \<times> json \<Rightarrow> BackgroundTaskTemplate" where
  "normalize_task bi it =
     (let (task_index, task) = it;
          rec = as_record task;
          command = string_or (get_prop rec ''command'') [];
          description = string_or (get_prop rec ''description'') [];
          error = string_or (get_prop rec ''error'') [];
          output_preview = string_or (get_prop rec ''outputPreview'') [];
          has_output_preview = (output_preview \<noteq> []);
          (status, label) = normalize_background_task_status (string_or (get_prop rec ''status'') []);
          meta_parts =
            (case get_prop rec ''runtimeSec'' of
               Some (JNum n) \<Rightarrow> let rt = format_runtime_sec (number_to_string bi) n
                                in if rt \<noteq> [] then [rt] else []
             | _ \<Rightarrow> [])
            @ (case get_prop rec ''exitCode'' of
                 Some (JNum n) \<Rightarrow>
                   if is_finite n then [''exit '' @ num_to_string (number_to_string bi) n] else []
               | _ \<Rightarrow> [])
      in \<lparr>bg_task_index = task_index,
          bg_description = description,
          bg_command = command,
          bg_status = status,
          bg_status_label = label,
          bg_meta_line = join meta_sep meta_parts,
          bg_has_output_preview = has_output_preview,
          bg_output_preview = output_preview,
          bg_error = error\<rparr>)"

definition task_kept :: "BackgroundTaskTemplate \<Rightarrow> bool" where
  "task_kept task =
     (bg_command task \<noteq> [] \<or> bg_description task \<noteq> [] \<or> bg_has_output_preview task
      \<or> bg_error task \<noteq> [])"

text \<open>
  The background-task loop; the accumulator is
  \<open>(groups, skip_block_indexes, group_index)\<close>.
\<close>

definition background_step ::
  "env \<Rightarrow> nat \<times> json \<Rightarrow> BackgroundTasksGroupTemplate list \<times> nat set \<times> nat
     \<Rightarrow> BackgroundTasksGroupTemplate list \<times> nat set \<times> nat" where
  "background_step bi ib acc =
     (let (index, block) = ib; (groups, skip_block_indexes, group_index) = acc
      in case sp_ai_background_tasks_block_schema block of
           None \<Rightarrow> acc
         | Some parsed \<Rightarrow>
             (let raw_tasks = opt_or (bt_tasks parsed) []
              in if raw_tasks = [] then acc
                 else let tasks = filter task_kept (map (normalize_task bi) (with_index raw_tasks))
                      in if tasks = [] then acc
                         else (groups @ [\<lparr>bgg_group_index = group_index,
                                                             bgg_title = opt_or (bt_title parsed) [],
                                                             bgg_tasks = tasks\<rparr>],
                               insert index skip_block_indexes, group_index + 1)))"

record background_result =
  bk_section_title :: string
  bk_groups :: "BackgroundTasksGroupTemplate list"
  bk_skip_block_indexes :: "nat set"

definition background_loop ::
  "env \<Rightarrow> json list \<Rightarrow> BackgroundTasksGroupTemplate list \<times> nat set \<times> nat" where
  "background_loop bi blocks =
     foldl (\<lambda>acc ib. background_step bi ib acc) ([], {}, 0) (with_index blocks)"

definition normalize_background_tasks :: "env \<Rightarrow> json option \<Rightarrow> js_error + background_result" where
  "normalize_background_tasks bi extra_data =
     (case turn_blocks_of extra_data of
        Inl e \<Rightarrow> Inl e
      | Inr blocks \<Rightarrow>
          (let (groups, skip, n) = background_loop bi blocks
           in Inr \<lparr>bk_section_title =
                     (case groups of
                        [g] \<Rightarrow> if trim (bgg_title g) \<noteq> [] then bgg_title g else ''Background tasks''
                      | _ \<Rightarrow> ''Background tasks''),
                   bk_groups = groups,
                   bk_skip_block_indexes = skip\<rparr>))"

section \<open>The generic block pass\<close>

definition block_label :: "string \<Rightarrow> string \<Rightarrow> string" where
  "block_label kind channel =
     (if kind = ''markdown'' then ''Markdown''
      else if kind = ''text'' then ''Text''
      else if kind = ''code'' then ''Code''
      else if kind = ''diff'' then ''Diff''
      else if kind = ''json'' then ''JSON''
      else if kind = ''table'' then ''Table''
      else if kind = ''context_usage'' then ''Context usage''
      else if kind = ''file_tree'' then ''File tree''
      else if kind = ''memory_blocks'' then ''Memory blocks''
      else if kind = ''subagent_group'' then ''Subagent group''
      else if kind = ''background_tasks'' \<or> kind = ''bash_tasks'' then ''Background tasks''
      else if kind = ''queue'' then ''Queue''
      else if kind = ''plan'' then ''Plan''
      else if kind = ''todo'' then ''Todo''
      else if kind = ''stream'' \<and> channel = ''stderr'' then ''Stderr''
      else if kind = ''stream'' then ''Stdout''
      else ''Block'')"

text \<open>
  A block of \<open>WidgetState["blocks"]\<close>. Before validation \<open>text\<close> and \<open>copy_text\<close> may be
  undefined (\<open>'t\<close> is \<open>string option\<close>); the validated state has strings there.
\<close>

record 't turn_block =
  b_index :: nat
  b_kind :: string
  b_label :: string
  b_title :: string
  b_text :: 't
  b_language :: string
  b_channel :: string
  b_columns :: "string list"
  b_rows :: "string list list"
  b_has_columns :: bool
  b_copy_text :: 't
  b_is_table :: bool
  b_is_stream :: bool
  b_is_unknown :: bool
  b_is_context_usage :: bool
  b_has_context_usage_percent :: bool
  b_context_usage_percent :: jsnum
  b_has_list_items :: bool
  b_list_items :: "string list"
  b_is_file_tree :: bool

text \<open>\<open>x * c\<close> for a positive constant, \<open>Math.min\<close> and \<open>Math.max\<close>.\<close>

fun fmul :: "jsnum \<Rightarrow> rat \<Rightarrow> jsnum" where
  "fmul (Fin a) c = fl (a * c)"
| "fmul x c = x"

definition math_min :: "jsnum \<Rightarrow> jsnum \<Rightarrow> jsnum" where
  "math_min x y = (if x = NaN \<or> y = NaN then NaN else if num_lt y x then y else x)"

definition math_max :: "jsnum \<Rightarrow> jsnum \<Rightarrow> jsnum" where
  "math_max x y = (if x = NaN \<or> y = NaN then NaN else if num_lt x y then y else x)"

definition newline :: string where
  "newline = [char_of (10 :: nat)]"

record block_data =
  d_text :: "string option"
  d_language :: string
  d_is_unknown :: bool
  d_list_items :: "string list"
  d_has_context_usage_percent :: bool
  d_context_usage_percent :: jsnum

definition plain_data :: "string option \<Rightarrow> block_data" where
  "plain_data t = \<lparr>d_text = t, d_language = [], d_is_unknown = False, d_list_items = [],
                    d_has_context_usage_percent = False, d_context_usage_percent = Fin 0\<rparr>"

definition memory_item :: "env \<Rightarrow> json \<Rightarrow> string" where
  "memory_item bi item =
     (if \<not> truthy (Some item) \<or> \<not> typeof_object (Some item) then stringify_value bi item
      else string_or (get_prop item ''label'') ''(block)''
           @ (case get_prop item ''chars'' of
                Some (JNum n) \<Rightarrow> '' ('' @ num_to_string (number_to_string bi) n @ '' chars)''
              | _ \<Rightarrow> []))"

text \<open>
  The chain of \<open>if\<close>/\<open>else if\<close> on \<open>kind\<close> that fills \<open>text\<close>, \<open>language\<close>, \<open>is_unknown\<close>,
  \<open>list_items\<close> and the context-usage fields of a block that is not a table.
\<close>

definition block_fields :: "env \<Rightarrow> json \<Rightarrow> string \<Rightarrow> string \<Rightarrow> block_data" where
  "block_fields bi block kind channel =
     (if kind = ''markdown'' \<or> kind = ''text'' \<or> (kind = ''stream'' \<and> channel \<noteq> [])
        then plain_data (stringify_unknown bi (get_prop block ''text''))
      else if kind = ''code'' then
        (let text = stringify_unknown bi (get_prop block ''code'');
             language = string_or (get_prop block ''language'') []
         in (plain_data (if language = ''json''
                         then (case try_pretty_json bi text of Some pretty \<Rightarrow> Some pretty | None \<Rightarrow> text)
                         else text))
            \<lparr>d_language := language\<rparr>)
      else if kind = ''diff'' then
        (plain_data (stringify_unknown bi (get_prop block ''diff'')))
          \<lparr>d_language := string_or (get_prop block ''language'') ''diff''\<rparr>
      else if kind = ''json'' then
        (plain_data
           (case get_prop block ''text'' of
              Some (JStr t) \<Rightarrow>
                (case try_pretty_json bi (Some t) of Some pretty \<Rightarrow> Some pretty | None \<Rightarrow> Some t)
            | _ \<Rightarrow>
                if get_prop block ''json'' \<noteq> None then stringify_unknown bi (get_prop block ''json'')
                else stringify_unknown bi (Some block)))
          \<lparr>d_language := ''json''\<rparr>
      else if kind = ''context_usage'' then
        (let unit = string_or (get_prop block ''unit'') ''tokens'';
             breakdown = array_or_empty (get_prop block ''breakdown'');
             list_items = map (stringify_value bi) breakdown
         in case (get_prop block ''used'', get_prop block ''limit'') of
              (Some (JNum (Fin used)), Some (JNum (Fin limit))) \<Rightarrow>
                if 0 < limit
                then \<lparr>d_text = Some (num_to_string (number_to_string bi) (Fin used) @ ''/''
                                      @ num_to_string (number_to_string bi) (Fin limit) @ '' '' @ unit),
                      d_language = [], d_is_unknown = False, d_list_items = list_items,
                      d_has_context_usage_percent = True,
                      d_context_usage_percent =
                        math_max (Fin 0) (math_min (Fin 100) (fmul (fdiv (Fin used) limit) 100))\<rparr>
                else (plain_data (case get_prop block ''text'' of
                                    Some (JStr t) \<Rightarrow> Some t
                                  | _ \<Rightarrow> stringify_unknown bi (Some block)))
                       \<lparr>d_list_items := list_items\<rparr>
            | _ \<Rightarrow> (plain_data (case get_prop block ''text'' of
                                   Some (JStr t) \<Rightarrow> Some t
                                 | _ \<Rightarrow> stringify_unknown bi (Some block)))
                      \<lparr>d_list_items := list_items\<rparr>)
      else if kind = ''file_tree'' then
        (case get_prop block ''entries'' of
           Some (JArr entries) \<Rightarrow>
             (let list_items = map (stringify_value bi) entries
              in (plain_data (Some (join newline list_items)))\<lparr>d_list_items := list_items\<rparr>)
         | _ \<Rightarrow>
             (case get_prop block ''tree'' of
                Some (JStr t) \<Rightarrow> plain_data (Some t)
              | _ \<Rightarrow> plain_data (Some (stringify_value bi
                         (nullish (get_prop block ''entries'') (nullish (get_prop block ''tree'') block))))))
      else if kind = ''memory_blocks'' then
        (case get_prop block ''blocks'' of
           Some (JArr items) \<Rightarrow>
             (let list_items = map (memory_item bi) items
              in (plain_data (Some (join newline list_items)))\<lparr>d_list_items := list_items\<rparr>)
         | _ \<Rightarrow>
             (case get_prop block ''text'' of
                Some (JStr t) \<Rightarrow> plain_data (Some t)
              | _ \<Rightarrow> plain_data (Some (stringify_value bi (nullish (get_prop block ''blocks'') block)))))
      else if kind = ''subagent_group'' \<or> kind = ''queue'' \<or> kind = ''plan'' \<or> kind = ''todo'' then
        (let raw_items = (case get_prop block ''items'' of
                            Some (JArr xs) \<Rightarrow> Some xs
                          | _ \<Rightarrow> (case get_prop block ''rows'' of Some (JArr xs) \<Rightarrow> Some xs | _ \<Rightarrow> None))
         in case raw_items of
              Some xs \<Rightarrow>
                (let list_items = map (stringify_value bi) xs
                 in (plain_data (Some (join newline list_items)))\<lparr>d_list_items := list_items\<rparr>)
            | None \<Rightarrow>
                (case get_prop block ''text'' of
                   Some (JStr t) \<Rightarrow> plain_data (Some t)
                 | _ \<Rightarrow> plain_data (stringify_unknown bi (Some block))))
      else (plain_data (stringify_unknown bi (Some block)))\<lparr>d_is_unknown := True\<rparr>)"

definition table_cells :: "env \<Rightarrow> json \<Rightarrow> string list" where
  "table_cells bi row =
     (case row of JArr vs \<Rightarrow> map (stringify_value bi) vs | _ \<Rightarrow> [stringify_value bi row])"

text \<open>One pass of the loop body for a block that is an object and is not skipped.\<close>

definition normalize_block :: "env \<Rightarrow> nat \<Rightarrow> json \<Rightarrow> (string option) turn_block" where
  "normalize_block bi index block =
     (let kind = string_or (get_prop block ''kind'') ''unknown'';
          title = string_or (get_prop block ''title'') []
      in if kind = ''table'' then
           (let columns = map (stringify_value bi) (array_or_empty (get_prop block ''columns''));
                rows = map (table_cells bi) (array_or_empty (get_prop block ''rows''))
            in \<lparr>b_index = index, b_kind = kind, b_label = block_label kind [], b_title = title,
                b_text = Some [], b_language = [], b_channel = [],
                b_columns = columns, b_rows = rows, b_has_columns = (columns \<noteq> []),
                b_copy_text =
                  Some (json_stringify bi
                          (JObj [(''columns'', JArr (map JStr columns)),
                                 (''rows'', JArr (map (\<lambda>r. JArr (map JStr r)) rows))])),
                b_is_table = True, b_is_stream = False, b_is_unknown = False,
                b_is_context_usage = False, b_has_context_usage_percent = False,
                b_context_usage_percent = Fin 0, b_has_list_items = False, b_list_items = [],
                b_is_file_tree = False\<rparr>)
         else
           (let channel =
                  (if kind = ''stream''
                      \<and> (get_prop block ''channel'' = Some (JStr ''stdout'')
                         \<or> get_prop block ''channel'' = Some (JStr ''stderr''))
                   then string_or (get_prop block ''channel'') [] else []);
                d = block_fields bi block kind channel
            in \<lparr>b_index = index, b_kind = kind, b_label = block_label kind channel, b_title = title,
                b_text = d_text d, b_language = d_language d, b_channel = channel,
                b_columns = [], b_rows = [], b_has_columns = False,
                b_copy_text = d_text d,
                b_is_table = False, b_is_stream = (kind = ''stream'' \<and> channel \<noteq> []),
                b_is_unknown = d_is_unknown d,
                b_is_context_usage = (kind = ''context_usage''),
                b_has_context_usage_percent = d_has_context_usage_percent d,
                b_context_usage_percent = d_context_usage_percent d,
                b_has_list_items = (d_list_items d \<noteq> []), b_list_items = d_list_items d,
                b_is_file_tree = (kind = ''file_tree'')\<rparr>))"

text \<open>
  \<open>normalize_turn_blocks(raw_blocks, opts)\<close>: nothing for a value that is not an array;
  otherwise the blocks in order, leaving out the indices of the skip set and the entries
  that are not objects (null, booleans, numbers, strings).
\<close>

definition block_skipped :: "nat set option \<Rightarrow> nat \<Rightarrow> bool" where
  "block_skipped opts index = (case opts of None \<Rightarrow> False | Some skip_block_indexes \<Rightarrow> index \<in> skip_block_indexes)"

definition is_object_entry :: "json \<Rightarrow> bool" where
  "is_object_entry raw = (truthy (Some raw) \<and> typeof_object (Some raw))"

definition normalize_turn_blocks ::
  "env \<Rightarrow> json option \<Rightarrow> nat set option \<Rightarrow> (string option) turn_block list" where
  "normalize_turn_blocks bi raw_blocks opts =
     (case raw_blocks of
        Some (JArr xs) \<Rightarrow>
          List.map_filter
            (\<lambda>(index, raw).
               if block_skipped opts index then None
               else if \<not> is_object_entry raw then None
               else Some (normalize_block bi index raw))
            (with_index xs)
      | _ \<Rightarrow> [])"

section \<open>The widget state\<close>

record parallel_info =
  par_groupId :: string
  par_index :: jsnum
  par_count :: jsnum
  par_hasPrev :: bool
  par_hasNext :: bool

text \<open>
  The object handed to \<open>widget_state_schema.safeParse\<close>. The fields read from the payload
  with \<open>??\<close> hold whatever value the payload has there.
\<close>

text \<open>The field \<open>output\<close> of the state is \<open>output_text\<close> here.\<close>

record candidate_state =
  cs_version :: json
  cs_display :: json
  cs_kind :: string
  cs_title :: json
  cs_caption :: json
  cs_status :: string
  cs_tool :: json
  cs_input :: json
  cs_output :: json
  cs_blocks :: "(string option) turn_block list"
  cs_parallel :: "parallel_info option"

record WidgetBaseState =
  version :: nat
  display :: string
  kind :: string
  title :: string
  caption :: string
  status :: string
  tool :: string
  input :: string
  output_text :: string
  blocks :: "string turn_block list"
  parallel :: "parallel_info option"

record WidgetState = WidgetBaseState +
  turn_kind :: json
  turn_kind_label :: string
  has_subagent_groups :: bool
  subagent_section_title :: string
  subagent_groups :: "SubagentGroupTemplate list"
  has_background_tasks :: bool
  background_tasks_section_title :: string
  background_task_groups :: "BackgroundTasksGroupTemplate list"
  has_plan_blocks :: bool
  plan_section_title :: string
  plan_groups :: "PlanGroupTemplate list"
  has_todo_blocks :: bool
  todo_section_title :: string
  todo_groups :: "TodoGroupTemplate list"

definition kind_enum :: "string list" where
  "kind_enum = [''thinking'', ''tool'', ''final'', ''error'', ''plan'', ''decision'', ''ask'',
                ''budget'', ''policy'', ''subagent_group'']"

definition status_enum :: "string list" where
  "status_enum = [''pending'', ''running'', ''ok'', ''error'', ''aborted'', ''denied'',
                  ''approval_requested'', ''approval_responded'']"

definition block_schema :: "(string option) turn_block \<Rightarrow> string turn_block option" where
  "block_schema b =
     (case (b_text b, b_copy_text b) of
        (Some text, Some copy_text) \<Rightarrow>
          if b_channel b \<in> set [''stdout'', ''stderr'', []] \<and> is_finite (b_context_usage_percent b)
          then Some \<lparr>b_index = b_index b, b_kind = b_kind b, b_label = b_label b,
                     b_title = b_title b, b_text = text, b_language = b_language b,
                     b_channel = b_channel b, b_columns = b_columns b, b_rows = b_rows b,
                     b_has_columns = b_has_columns b, b_copy_text = copy_text,
                     b_is_table = b_is_table b, b_is_stream = b_is_stream b,
                     b_is_unknown = b_is_unknown b, b_is_context_usage = b_is_context_usage b,
                     b_has_context_usage_percent = b_has_context_usage_percent b,
                     b_context_usage_percent = b_context_usage_percent b,
                     b_has_list_items = b_has_list_items b, b_list_items = b_list_items b,
                     b_is_file_tree = b_is_file_tree b\<rparr>
          else None
      | _ \<Rightarrow> None)"

definition parallel_schema :: "parallel_info option \<Rightarrow> parallel_info option option" where
  "parallel_schema p =
     (case p of
        None \<Rightarrow> Some None
      | Some q \<Rightarrow> if is_finite (par_index q) \<and> is_finite (par_count q) then Some (Some q) else None)"

definition widget_state_schema :: "candidate_state \<Rightarrow> WidgetBaseState option" where
  "widget_state_schema c =
     do {
       v \<leftarrow> zod_int_nonnegative (cs_version c);
       d \<leftarrow> zod_enum [''card_only'', ''card_with_caption''] (cs_display c);
       k \<leftarrow> zod_enum kind_enum (JStr (cs_kind c));
       t \<leftarrow> zod_string (cs_title c);
       cap \<leftarrow> zod_string (cs_caption c);
       st \<leftarrow> zod_enum status_enum (JStr (cs_status c));
       tl \<leftarrow> zod_string (cs_tool c);
       i \<leftarrow> zod_string (cs_input c);
       out \<leftarrow> zod_string (cs_output c);
       bs \<leftarrow> those (map block_schema (cs_blocks c));
       par \<leftarrow> parallel_schema (cs_parallel c);
       Some \<lparr>version = nat \<lfloor>v\<rfloor>, display = d, kind = k, title = t, caption = cap, status = st,
             tool = tl, input = i, output_text = out, blocks = bs, parallel = par\<rparr>
     }"

text \<open>\<open>x + c\<close> for a constant, and the \<open>parallel\<close> function expression.\<close>

fun fadd :: "jsnum \<Rightarrow> rat \<Rightarrow> jsnum" where
  "fadd (Fin a) c = fl (a + c)"
| "fadd x c = x"

definition parallel_of :: "json option \<Rightarrow> parallel_info option" where
  "parallel_of p =
     (if \<not> truthy p \<or> \<not> typeof_object p then None
      else let groupId = string_or (oprop p ''groupId'') [];
               index = (case oprop p ''index'' of Some (JNum n) \<Rightarrow> n | _ \<Rightarrow> Fin 0);
               count = (case oprop p ''count'' of Some (JNum n) \<Rightarrow> n
                        | _ \<Rightarrow> math_max (Fin 1) (fadd index 1));
               hasPrev = (case oprop p ''hasPrev'' of Some (JBool b) \<Rightarrow> b | _ \<Rightarrow> num_lt (Fin 0) index);
               hasNext = (case oprop p ''hasNext'' of Some (JBool b) \<Rightarrow> b
                          | _ \<Rightarrow> num_lt index (fadd count (- 1)))
           in if groupId = [] then None
              else Some \<lparr>par_groupId = groupId, par_index = index, par_count = count,
                         par_hasPrev = hasPrev, par_hasNext = hasNext\<rparr>)"

text \<open>
  The first lines of \<open>normalize_extra_data\<close>: \<open>ed = extra_data || {}\<close> and the turn object,
  \<open>None\<close> standing for the source's \<open>null\<close>.
\<close>

definition ed_of :: "json option \<Rightarrow> json" where
  "ed_of extra_data = js_or extra_data (JObj [])"

definition turn_of :: "json \<Rightarrow> json option" where
  "turn_of ed =
     (if truthy (get_prop ed ''turn'') \<and> typeof_object (get_prop ed ''turn'')
      then get_prop ed ''turn'' else None)"

text \<open>
  \<open>kindRaw\<close> and \<open>statusRaw\<close>, the two strings computed before anything else; either
  conversion may throw.
\<close>

definition raw_kind_status :: "env \<Rightarrow> json option \<Rightarrow> js_error + string \<times> string" where
  "raw_kind_status bi extra_data =
     (let ed = ed_of extra_data;
          turn = turn_of ed
      in case js_String (number_to_string bi) (js_or (oprop turn ''kind'') (JStr [])) of
           Inl e \<Rightarrow> Inl e
         | Inr kindRaw \<Rightarrow>
             (case js_String (number_to_string bi)
                     (js_or (oprop turn ''status'') (js_or (get_prop ed ''status'') (JStr ''running''))) of
                Inl e \<Rightarrow> Inl e
              | Inr statusRaw \<Rightarrow> Inr (kindRaw, statusRaw)))"

text \<open>The argument of \<open>widget_state_schema.safeParse\<close>.\<close>

definition candidate_of ::
  "env \<Rightarrow> json option \<Rightarrow> string \<Rightarrow> string \<Rightarrow> nat set \<Rightarrow> candidate_state" where
  "candidate_of bi extra_data kindRaw statusRaw skip_block_indexes =
     (let ed = ed_of extra_data;
          turn = turn_of ed
      in \<lparr>cs_version = nullish (get_prop ed ''version'') (JNum (Fin 2)),
          cs_display = nullish (get_prop ed ''display'') (JStr ''card_only''),
          cs_kind = (if kindRaw \<in> set kind_enum then kindRaw else ''final''),
          cs_title = nullish (oprop turn ''title'') (nullish (get_prop ed ''title'') (JStr ''Agent output'')),
          cs_caption = nullish (oprop turn ''subtitle'') (nullish (get_prop ed ''caption'') (JStr [])),
          cs_status = (if statusRaw \<in> set status_enum then statusRaw else ''running''),
          cs_tool = nullish (oprop (oprop turn ''tool'') ''name'') (nullish (get_prop ed ''tool'') (JStr [])),
          cs_input = nullish (oprop (oprop turn ''tool'') ''argsText'')
                       (nullish (get_prop ed ''input'') (JStr [])),
          cs_output = nullish (oprop turn ''output'') (nullish (get_prop ed ''output'') (JStr [])),
          cs_blocks = normalize_turn_blocks bi (oprop turn ''blocks'') (Some skip_block_indexes),
          cs_parallel = parallel_of (oprop turn ''parallel'')\<rparr>)"

text \<open>Log calls and repaints are the effects of the widget, listed in order.\<close>

datatype effect = LogWarn string | LogError string | Render WidgetState

text \<open>The four extractors in the order of the source; the first to throw ends the call.\<close>

record extracted =
  ex_subagents :: subagent_result
  ex_background :: background_result
  ex_plan :: plan_result
  ex_todo :: todo_result

definition extract_groups :: "env \<Rightarrow> json option \<Rightarrow> js_error + extracted" where
  "extract_groups bi extra_data =
     (case normalize_subagent_groups bi extra_data of
        Inl e \<Rightarrow> Inl e
      | Inr sg \<Rightarrow>
     (case normalize_background_tasks bi extra_data of
        Inl e \<Rightarrow> Inl e
      | Inr bg \<Rightarrow>
     (case normalize_plan_blocks bi extra_data of
        Inl e \<Rightarrow> Inl e
      | Inr pl \<Rightarrow>
     (case normalize_todo_blocks bi extra_data of
        Inl e \<Rightarrow> Inl e
      | Inr td \<Rightarrow> Inr \<lparr>ex_subagents = sg, ex_background = bg, ex_plan = pl, ex_todo = td\<rparr>))))"

definition all_skip_block_indexes :: "extracted \<Rightarrow> nat set" where
  "all_skip_block_indexes x =
     sr_skip_block_indexes (ex_subagents x) \<union> bk_skip_block_indexes (ex_background x)
     \<union> pl_skip_block_indexes (ex_plan x) \<union> td_skip_block_indexes (ex_todo x)"

definition with_groups :: "WidgetBaseState \<Rightarrow> extracted \<Rightarrow> WidgetState" where
  "with_groups base x =
     WidgetBaseState.extend base
       (WidgetState.fields
          (sr_turn_kind (ex_subagents x))
          (sr_turn_kind_label (ex_subagents x))
          (sr_groups (ex_subagents x) \<noteq> [])
          (sr_section_title (ex_subagents x))
          (sr_groups (ex_subagents x))
          (bk_groups (ex_background x) \<noteq> [])
          (bk_section_title (ex_background x))
          (bk_groups (ex_background x))
          (pl_groups (ex_plan x) \<noteq> [])
          (pl_section_title (ex_plan x))
          (pl_groups (ex_plan x))
          (td_groups (ex_todo x) \<noteq> [])
          (td_section_title (ex_todo x))
          (td_groups (ex_todo x)))"

definition fallback_base :: WidgetBaseState where
  "fallback_base =
     \<lparr>version = 2, display = ''card_only'', kind = ''final'', title = ''Agent output'',
      caption = [], status = ''running'', tool = [], input = [], output_text = [], blocks = [],
      parallel = None\<rparr>"

definition invalid_extra_data :: string where
  "invalid_extra_data = ''sp_ai widget: invalid extra_data''"

definition normalize_extra_data :: "env \<Rightarrow> json option \<Rightarrow> js_error + WidgetState \<times> effect list" where
  "normalize_extra_data bi extra_data =
     (case raw_kind_status bi extra_data of
        Inl e \<Rightarrow> Inl e
      | Inr (kindRaw, statusRaw) \<Rightarrow>
     (case extract_groups bi extra_data of
        Inl e \<Rightarrow> Inl e
      | Inr x \<Rightarrow>
          (case widget_state_schema
                  (candidate_of bi extra_data kindRaw statusRaw (all_skip_block_indexes x)) of
             Some parsed \<Rightarrow> Inr (with_groups parsed x, [])
           | None \<Rightarrow> Inr (with_groups fallback_base x, [LogWarn invalid_extra_data]))))"

section \<open>Inbound events\<close>

datatype InboundEvent =
    SetExtraData "json option"
  | SetStatus string
  | SetOutput string
  | AppendOutput string

text \<open>
  \<open>sp_ai_widget_inbound_event_schema\<close>, a union discriminated by \<open>type\<close>. The value of
  \<open>extra_data\<close> is \<open>z.unknown()\<close>: anything, a missing key included.
\<close>

definition sp_ai_widget_inbound_event_schema :: "json \<Rightarrow> InboundEvent option" where
  "sp_ai_widget_inbound_event_schema v =
     (if \<not> is_plain_object v then None
      else case get_prop v ''type'' of
             Some (JStr ty) \<Rightarrow>
               if ty = ''set_extra_data'' then Some (SetExtraData (get_prop v ''extra_data''))
               else if ty = ''set_status'' then
                 (case get_prop v ''status'' of
                    Some s \<Rightarrow> map_option SetStatus (zod_enum status_enum s)
                  | None \<Rightarrow> None)
               else if ty = ''set_output'' then
                 (case get_prop v ''output'' of
                    Some s \<Rightarrow> map_option SetOutput (zod_string s)
                  | None \<Rightarrow> None)
               else if ty = ''append_output'' then
                 (case get_prop v ''chunk'' of
                    Some s \<Rightarrow> map_option AppendOutput (zod_string s)
                  | None \<Rightarrow> None)
               else None
           | _ \<Rightarrow> None)"

text \<open>
  \<open>apply_inbound_event\<close> assigns the closure variable \<open>state\<close>; here it returns the new
  state and the effects of the call, or the error thrown before any assignment.
\<close>

fun apply_inbound_event ::
  "env \<Rightarrow> WidgetState \<Rightarrow> InboundEvent \<Rightarrow> js_error + WidgetState \<times> effect list" where
  "apply_inbound_event bi state (SetExtraData extra) = normalize_extra_data bi extra"
| "apply_inbound_event bi state (SetStatus s) = Inr (state\<lparr>status := s\<rparr>, [])"
| "apply_inbound_event bi state (SetOutput out) = Inr (state\<lparr>output_text := out\<rparr>, [])"
| "apply_inbound_event bi state (AppendOutput chunk) =
     (let next_output = (if output_text state = [] then chunk else output_text state @ chunk)
      in Inr (state\<lparr>output_text := next_output\<rparr>, []))"

text \<open>
  The loop of \<open>handle_events\<close> over \<open>event.data\<close> of each event. The result is the state
  the closure holds afterwards, the effects so far, and the error if an event threw: an
  exception leaves the loop, and the states assigned before it stay.
\<close>

fun events_loop ::
  "env \<Rightarrow> WidgetState \<Rightarrow> json list \<Rightarrow> WidgetState \<times> effect list \<times> js_error option" where
  "events_loop bi state [] = (state, [], None)"
| "events_loop bi state (event # events) =
     (case sp_ai_widget_inbound_event_schema event of
        None \<Rightarrow> events_loop bi state events
      | Some evt \<Rightarrow>
          (case apply_inbound_event bi state evt of
             Inl e \<Rightarrow> (state, [], Some e)
           | Inr (state', effs) \<Rightarrow>
               (let (state'', effs', err) = events_loop bi state' events
                in (state'', effs @ effs', err))))"

definition handle_events ::
  "env \<Rightarrow> WidgetState \<Rightarrow> json list \<Rightarrow> WidgetState \<times> effect list \<times> js_error option" where
  "handle_events bi state events =
     (let (state', effs, err) = events_loop bi state events
      in case err of
           None \<Rightarrow> (state', effs @ [Render state'], None)
         | Some e \<Rightarrow> (state', effs, Some e))"

section \<open>Activation\<close>

record any_widget_data =
  widget_type :: string
  extra_data :: json

text \<open>
  What \<open>activate\<close> returns is an event handler: the no-op handler, or \<open>handle_events\<close>
  closed over the state.
\<close>

datatype handler = Noop | Live WidgetState

definition activate :: "env \<Rightarrow> any_widget_data \<Rightarrow> js_error + handler \<times> effect list" where
  "activate bi any_data =
     (if widget_type any_data \<noteq> ''sp_ai'' then Inl AssertionError
      else if extra_data any_data = JNull then Inr (Noop, [LogError invalid_extra_data])
      else case normalize_extra_data bi (Some (extra_data any_data)) of
             Inl e \<Rightarrow> Inl e
           | Inr (state, effs) \<Rightarrow> Inr (Live state, effs @ [Render state]))"

text \<open>Calling the returned handler with a list of events.\<close>

fun call_handler ::
  "env \<Rightarrow> handler \<Rightarrow> json list \<Rightarrow> handler \<times> effect list \<times> js_error option" where
  "call_handler bi Noop events = (Noop, [], None)"
| "call_handler bi (Live state) events =
     (let (state', effs, err) = handle_events bi state events in (Live state', effs, err))"

section \<open>A concrete environment\<close>

text \<open>
  An environment to evaluate the definitions on concrete payloads: library functions that
  return empty results and v2 schemas that accept nothing.
\<close>

definition plain_env :: env where
  "plain_env =
     \<lparr>number_to_string = (\<lambda>q. []), json_stringify = (\<lambda>v. []), json_parse = (\<lambda>s. None),
      sp_ai_plan_v2_block_schema = (\<lambda>v. None), sp_ai_todo_v2_block_schema = (\<lambda>v. None)\<rparr>"

section \<open>Concrete events\<close>

text \<open>The payloads \<open>{type: "append_output", chunk}\<close>, \<open>{type: "set_status", status}\<close> and
  \<open>{type: "set_extra_data", extra_data}\<close> as the host delivers them.\<close>

definition append_event :: "string \<Rightarrow> json" where
  "append_event c = JObj [(''type'', JStr ''append_output''), (''chunk'', JStr c)]"

definition status_event :: "string \<Rightarrow> json" where
  "status_event s = JObj [(''type'', JStr ''set_status''), (''status'', JStr s)]"

definition extra_data_event :: "json \<Rightarrow> json" where
  "extra_data_event v = JObj [(''type'', JStr ''set_extra_data''), (''extra_data'', v)]"

section \<open>Concrete states\<close>

text \<open>
  The documented default state: the defaults of the base fields, no turn kind, every
  group list empty, every \<open>has_\<close> flag false, the fixed section titles.
\<close>

definition no_groups :: extracted where
  "no_groups =
     \<lparr>ex_subagents = \<lparr>sr_turn_kind = JStr [], sr_turn_kind_label = [],
                       sr_section_title = ''Subagents'', sr_groups = [],
                       sr_skip_block_indexes = {}\<rparr>,
      ex_background = \<lparr>bk_section_title = ''Background tasks'', bk_groups = [],
                        bk_skip_block_indexes = {}\<rparr>,
      ex_plan = \<lparr>pl_section_title = ''Plan'', pl_groups = [], pl_skip_block_indexes = {}\<rparr>,
      ex_todo = \<lparr>td_section_title = ''Todo'', td_groups = [], td_skip_block_indexes = {}\<rparr>\<rparr>"

definition default_state :: WidgetState where
  "default_state = with_groups fallback_base no_groups"

text \<open>A state with \<open>status = "ok"\<close> and \<open>output = "X"\<close>.\<close>

definition sample_state :: WidgetState where
  "sample_state = default_state\<lparr>status := ''ok'', output_text := ''X''\<rparr>"

section \<open>The candidate state of a payload\<close>

text \<open>
  The object \<open>normalize_extra_data\<close> hands to \<open>widget_state_schema.safeParse\<close> for a
  payload, when the conversions and the extractors before it did not throw.
\<close>

definition candidate_state_of :: "env \<Rightarrow> json option \<Rightarrow> js_error + candidate_state" where
  "candidate_state_of bi payload =
     (case raw_kind_status bi payload of
        Inl e \<Rightarrow> Inl e
      | Inr (kindRaw, statusRaw) \<Rightarrow>
     (case extract_groups bi payload of
        Inl e \<Rightarrow> Inl e
      | Inr x \<Rightarrow> Inr (candidate_of bi payload kindRaw statusRaw (all_skip_block_indexes x))))"




text \<open>The keys of a creation payload that the widget reads.\<close>

definition payload_keys :: "string list" where
  "payload_keys = [''version'', ''display'', ''title'', ''caption'', ''status'', ''tool'',
                   ''input'', ''output'', ''turn'']"

text \<open>The four event types of the inbound schema.\<close>

definition event_types :: "string list" where
  "event_types = [''set_extra_data'', ''set_status'', ''set_output'', ''append_output'']"

section \<open>Indices kept and removed by the generic pass\<close>

text \<open>
  For a block array and a skip set: the \<open>index\<close> values of the emitted blocks, the
  indices of the array that no emitted block carries, and the indices of the array that
  are in the skip set.
\<close>

definition emitted_indices :: "env \<Rightarrow> json list \<Rightarrow> nat set \<Rightarrow> nat list" where
  "emitted_indices bi xs skip =
     map b_index (normalize_turn_blocks bi (Some (JArr xs)) (Some skip))"

definition removed_indices :: "env \<Rightarrow> json list \<Rightarrow> nat set \<Rightarrow> nat list" where
  "removed_indices bi xs skip =
     filter (\<lambda>i. i \<notin> set (emitted_indices bi xs skip)) [0..<length xs]"

definition consumed_indices :: "json list \<Rightarrow> nat set \<Rightarrow> nat list" where
  "consumed_indices xs skip = filter (\<lambda>i. i \<in> skip) [0..<length xs]"

section \<open>Empty groups\<close>

text \<open>
  A property of a block is absent or has the given value; a background task is empty
  when its command, description, output preview and error are each absent or \<open>""\<close>.
\<close>

definition absent_or :: "json \<Rightarrow> string \<Rightarrow> json \<Rightarrow> bool" where
  "absent_or b k v = (get_prop b k = None \<or> get_prop b k = Some v)"

definition empty_task :: "json \<Rightarrow> bool" where
  "empty_task t =
     (absent_or t ''command'' (JStr []) \<and> absent_or t ''description'' (JStr []) \<and>
      absent_or t ''outputPreview'' (JStr []) \<and> absent_or t ''error'' (JStr []))"

text \<open>
  The two blocks of the specification's example: a subagent group with no agent and an
  empty text, and a background-task block whose single task has every field empty.
\<close>

definition empty_subagent_block :: json where
  "empty_subagent_block =
     JObj [(''kind'', JStr ''subagent_group''), (''agents'', JArr []), (''text'', JStr [])]"

definition empty_background_block :: json where
  "empty_background_block =
     JObj [(''kind'', JStr ''background_tasks''),
           (''tasks'', JArr [JObj [(''command'', JStr []), (''description'', JStr []),
                                   (''outputPreview'', JStr []), (''error'', JStr [])]])]"

section \<open>Evaluating the number model\<close>

lemma bitlen_nat_numeral:
  "bitlen_nat (numeral k) = Suc (bitlen_nat (numeral k div 2))"
  "bitlen_nat 0 = 0" "bitlen_nat 1 = 1" "bitlen_nat (Suc 0) = 1"
  by (simp_all add: bitlen_nat.simps)

lemma rat_floor_divide_numeral:
  "\<lfloor>numeral a / numeral b :: rat\<rfloor> = numeral a div numeral b"
  by (metis floor_divide_of_int_eq of_int_numeral)

lemma rat_ceiling_divide_numeral:
  "\<lceil>numeral a / numeral b :: rat\<rceil> = - (- numeral a div numeral b)"
  by (metis ceiling_divide_eq_div of_int_numeral)

lemmas num_eval =
  format_duration_ms_def fl_def ilog2_def round_half_even_def pow2_def Let_def
  to_fixed_digits_def nat_to_dec.simps digit_char_def is_integer_def
  bitlen_nat_numeral rat_floor_divide_numeral rat_ceiling_divide_numeral

section \<open>Bounds on rounding to binary64\<close>

text \<open>
  Rounding is monotone across an integer that binary64 represents: a quotient at or above
  the integer \<open>c\<close> is not rounded below it, and one at least a thousandth below \<open>c\<close> is not
  rounded up to it. This decides the branches of \<open>format_duration_ms\<close> from the duration
  itself.
\<close>

lemma pow2_powi: "pow2 e = 2 powi e"
  by (simp add: pow2_def power_int_def inverse_eq_divide power_one_over)

lemma pow2_pos: "0 < pow2 e"
  by (simp add: pow2_def)

lemma pow2_add: "pow2 (a + b) = pow2 a * pow2 b"
  by (simp add: pow2_powi power_int_add)

lemma pow2_mono: "a \<le> b \<Longrightarrow> pow2 a \<le> pow2 b"
  by (simp add: pow2_powi power_int_increasing)

lemma pow2_nat: "pow2 (int n) = 2 ^ n"
  by (simp add: pow2_def)

lemma bitlen_nat_bounds: "0 < n \<Longrightarrow> 2 ^ (bitlen_nat n - 1) \<le> n \<and> n < 2 ^ bitlen_nat n"
proof (induction n rule: bitlen_nat.induct)
  case (1 n)
  show ?case
  proof (cases "n div 2 = 0")
    case True
    with 1(2) have "n = 1" by presburger
    then show ?thesis by (simp add: bitlen_nat.simps)
  next
    case False
    then have pos: "0 < n div 2" by simp
    with 1 have ih: "2 ^ (bitlen_nat (n div 2) - 1) \<le> n div 2 \<and> n div 2 < 2 ^ bitlen_nat (n div 2)"
      by simp
    have b: "bitlen_nat n = Suc (bitlen_nat (n div 2))" using 1(2) by (simp add: bitlen_nat.simps)
    have bp: "0 < bitlen_nat (n div 2)" using pos by (simp add: bitlen_nat.simps)
    then obtain k where k: "bitlen_nat (n div 2) = Suc k" by (cases "bitlen_nat (n div 2)") simp_all
    from ih k have "2 ^ k \<le> n div 2" "n div 2 < 2 ^ Suc k" by simp_all
    then have "2 * 2 ^ k \<le> n" "n < 2 * (2 * 2 ^ k)" by simp_all
    then have "2 ^ Suc k \<le> n" "n < 2 ^ Suc (Suc k)" by simp_all
    then show ?thesis by (simp add: b k)
  qed
qed

lemma ilog2_bounds:
  assumes "1 \<le> a"
  shows "0 \<le> ilog2 a \<and> pow2 (ilog2 a) \<le> a \<and> a < pow2 (ilog2 a + 1)"
proof -
  let ?n = "nat \<lfloor>a\<rfloor>"
  have fl1: "1 \<le> \<lfloor>a\<rfloor>" using assms by (simp add: le_floor_iff)
  then have n: "0 < ?n" by simp
  from bitlen_nat_bounds [OF n] have lo: "2 ^ (bitlen_nat ?n - 1) \<le> ?n" and hi: "?n < 2 ^ bitlen_nat ?n"
    by simp_all
  have bp: "0 < bitlen_nat ?n" using n by (simp add: bitlen_nat.simps)
  have e: "ilog2 a = int (bitlen_nat ?n - 1)" using assms bp by (simp add: ilog2_def of_nat_diff)
  have "rat_of_nat (2 ^ (bitlen_nat ?n - 1)) \<le> rat_of_nat ?n" using lo by (simp only: of_nat_le_iff)
  also have "rat_of_nat ?n = of_int \<lfloor>a\<rfloor>" using fl1 by simp
  also have "\<dots> \<le> a" by simp
  finally have l: "pow2 (ilog2 a) \<le> a" by (simp add: e pow2_nat)
  have "ilog2 a + 1 = int (bitlen_nat ?n)" using bp e by simp
  then have p: "pow2 (ilog2 a + 1) = 2 ^ bitlen_nat ?n" by (simp only: pow2_nat)
  have "\<lfloor>a\<rfloor> < int (2 ^ bitlen_nat ?n)" using hi fl1 by linarith
  then have "a < of_int (int (2 ^ bitlen_nat ?n))" by (simp only: floor_less_iff)
  then have u: "a < pow2 (ilog2 a + 1)" by (simp add: p)
  show ?thesis using l u e by simp
qed

lemma round_half_even_ge:
  assumes "of_int k \<le> x"
  shows "k \<le> round_half_even x"
proof -
  have "k \<le> \<lfloor>x\<rfloor>" using assms by (simp add: le_floor_iff)
  moreover have "\<lfloor>x\<rfloor> \<le> round_half_even x" by (simp add: round_half_even_def Let_def)
  ultimately show ?thesis by linarith
qed

lemma round_half_even_le:
  assumes "x \<le> of_int k"
  shows "round_half_even x \<le> k"
proof (cases "of_int \<lfloor>x\<rfloor> = x")
  case True
  then have "x - of_int \<lfloor>x\<rfloor> = 0" by linarith
  then have "round_half_even x = \<lfloor>x\<rfloor>" by (simp add: round_half_even_def Let_def)
  moreover have "\<lfloor>x\<rfloor> \<le> k" using assms by (metis floor_mono floor_of_int)
  ultimately show ?thesis by simp
next
  case False
  then have "of_int \<lfloor>x\<rfloor> < x" by (metis of_int_floor_le order_less_le)
  then have "of_int \<lfloor>x\<rfloor> < (of_int k :: rat)" using assms by linarith
  then have "\<lfloor>x\<rfloor> < k" by (simp only: of_int_less_iff)
  then have "\<lfloor>x\<rfloor> + 1 \<le> k" by simp
  moreover have "round_half_even x \<le> \<lfloor>x\<rfloor> + 1" by (simp add: round_half_even_def Let_def)
  ultimately show ?thesis by linarith
qed

lemma fl_ge_int:
  fixes c :: int
  assumes c1: "1 \<le> c" and c2: "c \<le> 2 ^ 52" and q: "of_int c \<le> q"
  shows "\<not> num_lt (fl q) (Fin (of_int c))"
proof -
  have "(1 :: rat) \<le> of_int c" using c1 by simp
  then have q1: "1 \<le> q" using q by linarith
  define e where "e = ilog2 q"
  define u where "u = pow2 (e - 52)"
  define r where "r = rat_of_int (round_half_even (q / u)) * u"
  from ilog2_bounds [OF q1] have e0: "0 \<le> e" and lo: "pow2 e \<le> q" by (simp_all add: e_def)
  have up: "0 < u" by (simp add: u_def pow2_pos)
  have me: "max e (- 1022) = e" using e0 by simp
  have flq: "fl q = (if pow2 1024 \<le> r then PosInf else Fin r)"
    using q1 by (simp add: fl_def Let_def e_def [symmetric] me u_def [symmetric] r_def [symmetric])
  have "rat_of_int c \<le> r"
  proof (cases "e \<le> 52")
    case True
    define n where "n = nat (52 - e)"
    have "pow2 (e - 52) * pow2 (int n) = pow2 0" using True by (simp add: pow2_add [symmetric] n_def)
    then have un: "u * 2 ^ n = 1" by (simp add: u_def pow2_nat pow2_def)
    then have ue: "u = 1 / 2 ^ n" by (simp add: field_simps)
    have "rat_of_int (c * 2 ^ n) = of_int c / u" by (simp add: ue)
    also have "\<dots> \<le> q / u" using q up by (simp add: divide_right_mono)
    finally have "c * 2 ^ n \<le> round_half_even (q / u)" by (rule round_half_even_ge)
    then have "rat_of_int (c * 2 ^ n) \<le> rat_of_int (round_half_even (q / u))" by (simp only: of_int_le_iff)
    then have "rat_of_int (c * 2 ^ n) * u \<le> r" using up by (simp add: r_def)
    then show ?thesis by (simp add: ue)
  next
    case False
    then have e52: "52 \<le> e" by simp
    have "pow2 e = pow2 52 * pow2 (e - 52)" by (simp add: pow2_add [symmetric])
    then have pe: "pow2 e = 2 ^ 52 * u" by (simp add: u_def pow2_def)
    have "rat_of_int (2 ^ 52) = pow2 e / u" using up by (simp add: pe)
    also have "\<dots> \<le> q / u" using lo up by (simp add: divide_right_mono)
    finally have "2 ^ 52 \<le> round_half_even (q / u)" by (rule round_half_even_ge)
    then have "rat_of_int (2 ^ 52) \<le> rat_of_int (round_half_even (q / u))" by (simp only: of_int_le_iff)
    then have "rat_of_int (2 ^ 52) * u \<le> r" using up by (simp add: r_def)
    moreover have "1 \<le> u" using pow2_mono [of 0 "e - 52"] e52 by (simp add: u_def pow2_def)
    moreover have "rat_of_int c \<le> rat_of_int (2 ^ 52)" using c2 by (simp only: of_int_le_iff)
    moreover have "rat_of_int (2 ^ 52) * 1 \<le> rat_of_int (2 ^ 52) * u"
      using \<open>1 \<le> u\<close> by (intro mult_left_mono) simp_all
    ultimately show ?thesis by linarith
  qed
  then show ?thesis by (simp add: flq)
qed

lemma fl_lt_int:
  fixes c :: int
  assumes q1: "1 \<le> q" and q: "q \<le> of_int c - 1 / 1000" and c2: "c \<le> 64"
  shows "num_lt (fl q) (Fin (of_int c))"
proof -
  define e where "e = ilog2 q"
  define u where "u = pow2 (e - 52)"
  define r where "r = rat_of_int (round_half_even (q / u)) * u"
  from ilog2_bounds [OF q1] have e0: "0 \<le> e" and lo: "pow2 e \<le> q" by (simp_all add: e_def)
  have up: "0 < u" by (simp add: u_def pow2_pos)
  have me: "max e (- 1022) = e" using e0 by simp
  have flq: "fl q = (if pow2 1024 \<le> r then PosInf else Fin r)"
    using q1 by (simp add: fl_def Let_def e_def [symmetric] me u_def [symmetric] r_def [symmetric])
  have "rat_of_int c \<le> 64" using c2 by (metis of_int_le_iff of_int_numeral)
  then have q64: "q < 64" using q by linarith
  have e5: "e \<le> 5"
  proof (rule ccontr)
    assume "\<not> e \<le> 5"
    then have "pow2 6 \<le> pow2 e" by (intro pow2_mono) simp
    then show False using lo q64 by (simp add: pow2_def)
  qed
  define n where "n = nat (52 - e)"
  have n47: "47 \<le> n" using e5 by (simp add: n_def)
  have "pow2 (e - 52) * pow2 (int n) = pow2 0" using e5 by (simp add: pow2_add [symmetric] n_def)
  then have un: "u * 2 ^ n = 1" by (simp add: u_def pow2_nat pow2_def)
  then have ue: "u = 1 / 2 ^ n" by (simp add: field_simps)
  have "(2 :: rat) ^ 47 \<le> 2 ^ n" using n47 by (intro power_increasing) simp_all
  then have big: "(1000 :: rat) \<le> 2 ^ n" by simp
  have "q / u = q * 2 ^ n" by (simp add: ue)
  also have "\<dots> \<le> (of_int c - 1 / 1000) * 2 ^ n" using q by (simp add: mult_right_mono)
  also have "\<dots> = of_int c * 2 ^ n - 2 ^ n / 1000" by (simp add: algebra_simps)
  also have "\<dots> \<le> of_int c * 2 ^ n - 1" using big by simp
  also have "\<dots> = rat_of_int (c * 2 ^ n - 1)" by simp
  finally have "round_half_even (q / u) \<le> c * 2 ^ n - 1" by (rule round_half_even_le)
  then have "rat_of_int (round_half_even (q / u)) \<le> rat_of_int (c * 2 ^ n - 1)" by (simp only: of_int_le_iff)
  then have "r \<le> rat_of_int (c * 2 ^ n - 1) * u" using up by (simp add: r_def)
  also have "\<dots> = of_int c - u" by (simp add: ue algebra_simps)
  finally have rc: "r < of_int c" using up by linarith
  have "r < 64" using rc \<open>rat_of_int c \<le> 64\<close> by linarith
  then have "\<not> pow2 1024 \<le> r" by (simp add: pow2_def)
  then show ?thesis using rc by (simp add: flq)
qed

lemma seconds_lt:
  fixes c :: int
  assumes "1000 \<le> d" "d \<le> 1000 * of_int c - 1" "c \<le> 64"
  shows "num_lt (fdiv (Fin d) 1000) (Fin (of_int c))"
proof -
  have "1 \<le> d / 1000" using assms(1) by simp
  moreover have "d / 1000 \<le> of_int c - 1 / 1000" using assms(2) by (simp add: field_simps)
  ultimately show ?thesis using assms(3) by (simp add: fl_lt_int)
qed

lemma seconds_ge:
  fixes c :: int
  assumes "1000 * of_int c \<le> d" "1 \<le> c" "c \<le> 2 ^ 52"
  shows "\<not> num_lt (fdiv (Fin d) 1000) (Fin (of_int c))"
proof -
  have "of_int c \<le> d / 1000" using assms(1) by (simp add: field_simps)
  then show ?thesis using assms(2,3) by (simp add: fl_ge_int)
qed

lemma seconds_ranges:
  "1000 \<le> d \<Longrightarrow> d \<le> 9999 \<Longrightarrow> num_lt (fdiv (Fin d) 1000) (Fin 10)"
  "10000 \<le> d \<Longrightarrow> \<not> num_lt (fdiv (Fin d) 1000) (Fin 10)"
  "1000 \<le> d \<Longrightarrow> d \<le> 59999 \<Longrightarrow> num_lt (fdiv (Fin d) 1000) (Fin 60)"
  "60000 \<le> d \<Longrightarrow> \<not> num_lt (fdiv (Fin d) 1000) (Fin 60)"
  using seconds_lt [of d 10] seconds_ge [of 10 d] seconds_lt [of d 60] seconds_ge [of 60 d]
  by simp_all

section \<open>Formatting: guards and boundaries\<close>

text \<open>
  C10. For a negative or non-finite number (NaN, either infinity) each of
  \<open>format_duration_ms\<close>, \<open>format_tokens\<close> and \<open>format_runtime_sec\<close> returns the empty string.
\<close>

theorem format_guards:
  "\<not> is_finite x \<or> num_lt x (Fin 0) \<Longrightarrow>
     format_duration_ms nts x = [] \<and> format_tokens nts x = [] \<and> format_runtime_sec nts x = []"
  by (simp add: format_duration_ms_def format_tokens_def format_runtime_sec_def)

theorem format_guards_witness:
  "\<not> is_finite NaN \<and> \<not> is_finite PosInf \<and> num_lt (Fin (- 5)) (Fin 0) \<and>
   format_duration_ms (number_to_string plain_env) NaN = [] \<and>
   format_tokens (number_to_string plain_env) PosInf = [] \<and>
   format_runtime_sec (number_to_string plain_env) (Fin (- 5)) = []"
  using format_guards [of NaN "number_to_string plain_env"]
    format_guards [of PosInf "number_to_string plain_env"]
    format_guards [of "Fin (- 5)" "number_to_string plain_env"]
  by simp

lemma math_round_small:
  assumes "0 \<le> d" "d < 1000"
  shows "num_to_string nts (math_round (Fin d)) = nat_to_dec (nat \<lfloor>d + 1 / 2\<rfloor>)"
proof -
  let ?k = "\<lfloor>d + 1 / 2\<rfloor>"
  have k0: "0 \<le> ?k" using assms by (simp add: floor_le_iff le_floor_iff)
  have "d + 1 / 2 < 1001" using assms by simp
  then have k1: "?k < 1001" by (simp add: floor_less_iff)
  have "\<bar>rat_of_int ?k\<bar> < 2 ^ 53"
  proof -
    have "\<bar>rat_of_int ?k\<bar> = rat_of_int ?k" using k0 by simp
    also have "\<dots> < rat_of_int 1001" using k1 by (simp only: of_int_less_iff)
    also have "\<dots> < 2 ^ 53" by simp
    finally show ?thesis .
  qed
  moreover have "is_integer (rat_of_int ?k)" by (simp add: is_integer_def)
  moreover have "\<not> rat_of_int ?k < 0" using k0 by simp
  moreover have "nat \<lfloor>\<bar>rat_of_int ?k\<bar>\<rfloor> = nat ?k" using k0 by simp
  ultimately show ?thesis by simp
qed

lemma format_ms_branch:
  assumes "0 \<le> d" "d < 1000"
  shows "format_duration_ms nts (Fin d) = nat_to_dec (nat \<lfloor>d + 1 / 2\<rfloor>) @ ''ms''"
  using assms math_round_small [OF assms, of nts]
  by (simp add: format_duration_ms_def del: math_round.simps num_to_string.simps)

lemma format_seconds_branch:
  assumes "1000 \<le> d" "num_lt (fdiv (Fin d) 1000) (Fin 60)"
  shows "format_duration_ms nts (Fin d) =
           to_fixed nts (if num_lt (fdiv (Fin d) 1000) (Fin 10) then 1 else 0) (fdiv (Fin d) 1000)
           @ ''s''"
  using assms by (simp add: format_duration_ms_def Let_def del: fdiv.simps to_fixed.simps)

lemma format_minutes_branch:
  assumes "1000 \<le> d" "\<not> num_lt (fdiv (Fin d) 1000) (Fin 60)"
  shows "format_duration_ms nts (Fin d) =
           num_to_string nts (math_floor (fdiv (fdiv (Fin d) 1000) 60)) @ ''m ''
           @ num_to_string nts (math_round (fmod (fdiv (Fin d) 1000) 60)) @ ''s''"
  using assms
  by (simp add: format_duration_ms_def Let_def
        del: fdiv.simps to_fixed.simps num_to_string.simps math_floor.simps math_round.simps
             fmod.simps)

lemma format_at_999: "format_duration_ms nts (Fin 999) = ''999ms''"
  by (simp add: num_eval)

lemma format_at_1000: "format_duration_ms nts (Fin 1000) = ''1.0s''"
  by (simp add: num_eval)

lemma format_at_9999: "format_duration_ms nts (Fin 9999) = ''10.0s''"
  by (simp add: num_eval)

lemma format_at_10000: "format_duration_ms nts (Fin 10000) = ''10s''"
  by (simp add: num_eval)

lemma format_at_60000: "format_duration_ms nts (Fin 60000) = ''1m 0s''"
  by (simp add: num_eval)

text \<open>
  C5. The boundaries of \<open>format_duration_ms\<close>: 999 gives \<open>"999ms"\<close>, 1000 gives \<open>"1.0s"\<close>,
  9999 gives \<open>"10.0s"\<close>, 10000 gives \<open>"10s"\<close> and 60000 gives \<open>"1m 0s"\<close>. In general a
  duration below 1000 is its rounded value followed by \<open>ms\<close>; from 1000 on, with
  \<open>seconds = duration_ms / 1000\<close>, it is \<open>seconds\<close> with one decimal when \<open>seconds < 10\<close>, with
  none when \<open>10 \<le> seconds < 60\<close>, followed by \<open>s\<close>; and the minutes and the remaining
  seconds, \<open>"<m>m <s>s"\<close>, otherwise. The comparisons on \<open>seconds\<close> are those of the rounded
  quotient; they are decided by the duration: \<open>seconds < 10\<close> from 1000 to 9999,
  \<open>10 \<le> seconds < 60\<close> from 10000 to 59999, \<open>60 \<le> seconds\<close> from 60000 on, so that the
  one-decimal form never shows sixty seconds.
\<close>

theorem format_duration_ms_boundaries:
  "format_duration_ms nts (Fin 999) = ''999ms'' \<and>
   format_duration_ms nts (Fin 1000) = ''1.0s'' \<and>
   format_duration_ms nts (Fin 9999) = ''10.0s'' \<and>
   format_duration_ms nts (Fin 10000) = ''10s'' \<and>
   format_duration_ms nts (Fin 60000) = ''1m 0s'' \<and>
   (\<forall>d. 0 \<le> d \<and> d < 1000 \<longrightarrow>
      format_duration_ms nts (Fin d) = nat_to_dec (nat \<lfloor>d + 1 / 2\<rfloor>) @ ''ms'') \<and>
   (\<forall>d. 1000 \<le> d \<and> num_lt (fdiv (Fin d) 1000) (Fin 10) \<longrightarrow>
      format_duration_ms nts (Fin d) = to_fixed nts 1 (fdiv (Fin d) 1000) @ ''s'') \<and>
   (\<forall>d. 1000 \<le> d \<and> \<not> num_lt (fdiv (Fin d) 1000) (Fin 10) \<and> num_lt (fdiv (Fin d) 1000) (Fin 60) \<longrightarrow>
      format_duration_ms nts (Fin d) = to_fixed nts 0 (fdiv (Fin d) 1000) @ ''s'') \<and>
   (\<forall>d. 1000 \<le> d \<and> \<not> num_lt (fdiv (Fin d) 1000) (Fin 60) \<longrightarrow>
      format_duration_ms nts (Fin d) =
        num_to_string nts (math_floor (fdiv (fdiv (Fin d) 1000) 60)) @ ''m ''
        @ num_to_string nts (math_round (fmod (fdiv (Fin d) 1000) 60)) @ ''s'') \<and>
   (\<forall>d. 1000 \<le> d \<and> d \<le> 9999 \<longrightarrow> num_lt (fdiv (Fin d) 1000) (Fin 10)) \<and>
   (\<forall>d. 10000 \<le> d \<and> d \<le> 59999 \<longrightarrow>
      \<not> num_lt (fdiv (Fin d) 1000) (Fin 10) \<and> num_lt (fdiv (Fin d) 1000) (Fin 60)) \<and>
   (\<forall>d. 60000 \<le> d \<longrightarrow> \<not> num_lt (fdiv (Fin d) 1000) (Fin 60))"
proof (intro conjI allI impI)
  show "format_duration_ms nts (Fin 999) = ''999ms''" by (rule format_at_999)
  show "format_duration_ms nts (Fin 1000) = ''1.0s''" by (rule format_at_1000)
  show "format_duration_ms nts (Fin 9999) = ''10.0s''" by (rule format_at_9999)
  show "format_duration_ms nts (Fin 10000) = ''10s''" by (rule format_at_10000)
  show "format_duration_ms nts (Fin 60000) = ''1m 0s''" by (rule format_at_60000)
next
  fix d :: rat assume "0 \<le> d \<and> d < 1000"
  then show "format_duration_ms nts (Fin d) = nat_to_dec (nat \<lfloor>d + 1 / 2\<rfloor>) @ ''ms''"
    by (simp add: format_ms_branch)
next
  fix d :: rat assume h: "1000 \<le> d \<and> num_lt (fdiv (Fin d) 1000) (Fin 10)"
  then have "num_lt (fdiv (Fin d) 1000) (Fin 60)"
    by (cases "fdiv (Fin d) 1000") (simp_all del: fdiv.simps)
  with h show "format_duration_ms nts (Fin d) = to_fixed nts 1 (fdiv (Fin d) 1000) @ ''s''"
    by (simp add: format_seconds_branch del: fdiv.simps to_fixed.simps)
next
  fix d :: rat
  assume "1000 \<le> d \<and> \<not> num_lt (fdiv (Fin d) 1000) (Fin 10) \<and> num_lt (fdiv (Fin d) 1000) (Fin 60)"
  then show "format_duration_ms nts (Fin d) = to_fixed nts 0 (fdiv (Fin d) 1000) @ ''s''"
    by (simp add: format_seconds_branch del: fdiv.simps to_fixed.simps)
next
  fix d :: rat assume "1000 \<le> d \<and> \<not> num_lt (fdiv (Fin d) 1000) (Fin 60)"
  then show "format_duration_ms nts (Fin d) =
        num_to_string nts (math_floor (fdiv (fdiv (Fin d) 1000) 60)) @ ''m ''
        @ num_to_string nts (math_round (fmod (fdiv (Fin d) 1000) 60)) @ ''s''"
    by (simp add: format_minutes_branch)
next
  fix d :: rat assume "1000 \<le> d \<and> d \<le> 9999"
  then show "num_lt (fdiv (Fin d) 1000) (Fin 10)" by (simp add: seconds_ranges del: fdiv.simps)
next
  fix d :: rat assume h: "10000 \<le> d \<and> d \<le> 59999"
  then show "\<not> num_lt (fdiv (Fin d) 1000) (Fin 10)" by (simp add: seconds_ranges del: fdiv.simps)
  from h show "num_lt (fdiv (Fin d) 1000) (Fin 60)" by (simp add: seconds_ranges del: fdiv.simps)
next
  fix d :: rat assume "60000 \<le> d"
  then show "\<not> num_lt (fdiv (Fin d) 1000) (Fin 60)" by (simp add: seconds_ranges del: fdiv.simps)
qed

theorem format_duration_ms_boundaries_witness:
  "(0 \<le> (500 :: rat) \<and> (500 :: rat) < 1000) \<and>
   format_duration_ms (number_to_string plain_env) (Fin 500) = ''500ms'' \<and>
   (1000 \<le> (2500 :: rat) \<and> (2500 :: rat) \<le> 9999) \<and>
   num_lt (fdiv (Fin 2500) 1000) (Fin 10) \<and>
   format_duration_ms (number_to_string plain_env) (Fin 2500) = ''2.5s'' \<and>
   (10000 \<le> (45000 :: rat) \<and> (45000 :: rat) \<le> 59999) \<and>
   \<not> num_lt (fdiv (Fin 45000) 1000) (Fin 10) \<and> num_lt (fdiv (Fin 45000) 1000) (Fin 60) \<and>
   format_duration_ms (number_to_string plain_env) (Fin 45000) = ''45s'' \<and>
   60000 \<le> (125000 :: rat) \<and>
   \<not> num_lt (fdiv (Fin 125000) 1000) (Fin 60) \<and>
   format_duration_ms (number_to_string plain_env) (Fin 125000) = ''2m 5s''"
proof -
  note t = format_duration_ms_boundaries [of "number_to_string plain_env"]
  have h1: "0 \<le> (500 :: rat) \<and> (500 :: rat) < 1000" by simp
  have r2: "1000 \<le> (2500 :: rat) \<and> (2500 :: rat) \<le> 9999" by simp
  have r3: "10000 \<le> (45000 :: rat) \<and> (45000 :: rat) \<le> 59999" by simp
  have r4: "60000 \<le> (125000 :: rat)" by simp
  from t r2 have s2: "num_lt (fdiv (Fin 2500) 1000) (Fin 10)" by blast
  from t r3 have s3: "\<not> num_lt (fdiv (Fin 45000) 1000) (Fin 10) \<and> num_lt (fdiv (Fin 45000) 1000) (Fin 60)"
    by blast
  from t r4 have s4: "\<not> num_lt (fdiv (Fin 125000) 1000) (Fin 60)" by blast
  have h2: "1000 \<le> (2500 :: rat) \<and> num_lt (fdiv (Fin 2500) 1000) (Fin 10)" using s2 by simp
  have h3: "1000 \<le> (45000 :: rat) \<and> \<not> num_lt (fdiv (Fin 45000) 1000) (Fin 10)
      \<and> num_lt (fdiv (Fin 45000) 1000) (Fin 60)" using s3 by simp
  have h4: "1000 \<le> (125000 :: rat) \<and> \<not> num_lt (fdiv (Fin 125000) 1000) (Fin 60)" using s4 by simp
  from t h1 have "format_duration_ms (number_to_string plain_env) (Fin 500)
      = nat_to_dec (nat \<lfloor>(500 :: rat) + 1 / 2\<rfloor>) @ ''ms''" by blast
  moreover have "nat_to_dec (nat \<lfloor>(500 :: rat) + 1 / 2\<rfloor>) @ ''ms'' = ''500ms''" by (simp add: num_eval)
  moreover from t h2 have "format_duration_ms (number_to_string plain_env) (Fin 2500)
      = to_fixed (number_to_string plain_env) 1 (fdiv (Fin 2500) 1000) @ ''s''" by blast
  moreover have "to_fixed (number_to_string plain_env) 1 (fdiv (Fin 2500) 1000) @ ''s'' = ''2.5s''"
    by (simp add: num_eval)
  moreover from t h3 have "format_duration_ms (number_to_string plain_env) (Fin 45000)
      = to_fixed (number_to_string plain_env) 0 (fdiv (Fin 45000) 1000) @ ''s''" by blast
  moreover have "to_fixed (number_to_string plain_env) 0 (fdiv (Fin 45000) 1000) @ ''s'' = ''45s''"
    by (simp add: num_eval)
  moreover from t h4 have "format_duration_ms (number_to_string plain_env) (Fin 125000)
      = num_to_string (number_to_string plain_env) (math_floor (fdiv (fdiv (Fin 125000) 1000) 60))
        @ ''m ''
        @ num_to_string (number_to_string plain_env) (math_round (fmod (fdiv (Fin 125000) 1000) 60))
        @ ''s''" by blast
  moreover have "num_to_string (number_to_string plain_env) (math_floor (fdiv (fdiv (Fin 125000) 1000) 60))
        @ ''m ''
        @ num_to_string (number_to_string plain_env) (math_round (fmod (fdiv (Fin 125000) 1000) 60))
        @ ''s'' = ''2m 5s''" by (simp add: num_eval)
  ultimately show ?thesis using h1 r2 r3 r4 s2 s3 s4 by (simp only: simp_thms)
qed

section \<open>Status strings\<close>

text \<open>
  C6. Status normalisation is defined on every string and ignores case and surrounding
  white space: when the lower-cased trimmed string is one of ok, success, completed,
  complete the status is \<open>ok\<close>; one of error, failed, failure gives \<open>error\<close>; one of running,
  in_progress, in-progress, started gives \<open>running\<close>; a string outside the synonym sets of
  the function gives \<open>unknown\<close> with the trimmed original as label, or \<open>Unknown\<close> when
  that is empty. The background-task function knows the two further sets pending and
  aborted.
\<close>

theorem status_normalization:
  "(toLowerCase (trim raw) \<in> {''ok'', ''success'', ''completed'', ''complete''} \<longrightarrow>
      normalize_subagent_status raw = (''ok'', ''OK'') \<and>
      normalize_background_task_status raw = (''ok'', ''OK'')) \<and>
   (toLowerCase (trim raw) \<in> {''error'', ''failed'', ''failure''} \<longrightarrow>
      normalize_subagent_status raw = (''error'', ''Error'') \<and>
      normalize_background_task_status raw = (''error'', ''Error'')) \<and>
   (toLowerCase (trim raw) \<in> {''running'', ''in_progress'', ''in-progress'', ''started''} \<longrightarrow>
      normalize_subagent_status raw = (''running'', ''Running'') \<and>
      normalize_background_task_status raw = (''running'', ''Running'')) \<and>
   (toLowerCase (trim raw)
      \<notin> {''ok'', ''success'', ''completed'', ''complete'', ''error'', ''failed'', ''failure'',
         ''running'', ''in_progress'', ''in-progress'', ''started''} \<longrightarrow>
      normalize_subagent_status raw =
        (''unknown'', if trim raw = [] then ''Unknown'' else trim raw)) \<and>
   (toLowerCase (trim raw)
      \<notin> {''ok'', ''success'', ''completed'', ''complete'', ''error'', ''failed'', ''failure'',
         ''running'', ''in_progress'', ''in-progress'', ''started'',
         ''pending'', ''queued'', ''queue'', ''aborted'', ''canceled'', ''cancelled''} \<longrightarrow>
      normalize_background_task_status raw =
        (''unknown'', if trim raw = [] then ''Unknown'' else trim raw))"
  unfolding normalize_subagent_status_def normalize_background_task_status_def Let_def
  by auto

lemma lower_trim_examples:
  "trim '' OK '' = ''OK''" "toLowerCase ''OK'' = ''ok''"
  "trim ''Completed'' = ''Completed''" "toLowerCase ''Completed'' = ''completed''"
  "trim ''Failed'' = ''Failed''" "toLowerCase ''Failed'' = ''failed''"
  "trim ''ERROR'' = ''ERROR''" "toLowerCase ''ERROR'' = ''error''"
  "trim ''In-Progress'' = ''In-Progress''" "toLowerCase ''In-Progress'' = ''in-progress''"
  "trim '' Weird '' = ''Weird''" "toLowerCase ''Weird'' = ''weird''"
  "trim ''  '' = []" "toLowerCase [] = []"
  by code_simp+

theorem status_normalization_witness:
  "normalize_subagent_status '' OK '' = (''ok'', ''OK'') \<and>
   normalize_background_task_status ''Completed'' = (''ok'', ''OK'') \<and>
   normalize_subagent_status ''Failed'' = (''error'', ''Error'') \<and>
   normalize_background_task_status ''ERROR'' = (''error'', ''Error'') \<and>
   normalize_subagent_status ''In-Progress'' = (''running'', ''Running'') \<and>
   normalize_subagent_status '' Weird '' = (''unknown'', ''Weird'') \<and>
   normalize_background_task_status '' Weird '' = (''unknown'', ''Weird'') \<and>
   normalize_subagent_status ''  '' = (''unknown'', ''Unknown'') \<and>
   normalize_background_task_status ''  '' = (''unknown'', ''Unknown'')"
  using status_normalization [of "'' OK ''"] status_normalization [of "''Completed''"]
    status_normalization [of "''Failed''"] status_normalization [of "''ERROR''"]
    status_normalization [of "''In-Progress''"] status_normalization [of "'' Weird ''"]
    status_normalization [of "''  ''"]
  apply (simp only: lower_trim_examples)
  apply simp
  done

section \<open>The reducer\<close>

lemma parse_append_event:
  "sp_ai_widget_inbound_event_schema (append_event c) = Some (AppendOutput c)"
  by (simp add: sp_ai_widget_inbound_event_schema_def append_event_def)

text \<open>
  C7. Two \<open>append_output\<close> events in a row leave the widget as one event with the
  concatenated chunk does: the same state (so the same output, no character dropped or
  reordered) and the same effects, on the reducer and through \<open>handle_events\<close>. From an
  empty output, chunks \<open>"a"\<close> and \<open>"b"\<close> give the output \<open>"ab"\<close>.
\<close>

theorem append_output_concat:
  "(case apply_inbound_event bi state (AppendOutput chunk_a) of
      Inl e \<Rightarrow> Inl e
    | Inr (state1, effs) \<Rightarrow> apply_inbound_event bi state1 (AppendOutput chunk_b))
     = apply_inbound_event bi state (AppendOutput (chunk_a @ chunk_b)) \<and>
   apply_inbound_event bi state (AppendOutput (chunk_a @ chunk_b))
     = Inr (state\<lparr>output_text := output_text state @ chunk_a @ chunk_b\<rparr>, []) \<and>
   handle_events bi state [append_event chunk_a, append_event chunk_b]
     = handle_events bi state [append_event (chunk_a @ chunk_b)] \<and>
   output_text (fst (handle_events bi (state\<lparr>output_text := []\<rparr>)
                       [append_event ''a'', append_event ''b''])) = ''ab''"
  by (simp add: handle_events_def parse_append_event)

theorem append_output_concat_witness:
  "handle_events plain_env sample_state [append_event ''ab'', append_event ''cd'']
     = handle_events plain_env sample_state [append_event ''abcd''] \<and>
   apply_inbound_event plain_env sample_state (AppendOutput (''ab'' @ ''cd''))
     = Inr (sample_state\<lparr>output_text := output_text sample_state @ ''ab'' @ ''cd''\<rparr>, [])"
  using append_output_concat
    [where bi = plain_env and state = sample_state and chunk_a = "''ab''" and chunk_b = "''cd''"]
  by simp

section \<open>Normalising a payload\<close>












lemma normalize_via_candidate:
  "normalize_extra_data bi ed =
     (case candidate_state_of bi ed of
        Inl e \<Rightarrow> Inl e
      | Inr c \<Rightarrow>
          (case extract_groups bi ed of
             Inl e \<Rightarrow> Inl e
           | Inr x \<Rightarrow>
               (case widget_state_schema c of
                  Some parsed \<Rightarrow> Inr (with_groups parsed x, [])
                | None \<Rightarrow> Inr (with_groups fallback_base x, [LogWarn invalid_extra_data]))))"
  by (simp add: normalize_extra_data_def candidate_state_of_def split: sum.splits prod.splits)


lemma normalize_throws:
  "normalize_extra_data bi None = Inl TypeError"
  "normalize_extra_data bi (Some JNull) = Inl TypeError"
  by (simp_all add: normalize_extra_data_def raw_kind_status_def ed_of_def js_or_def turn_of_def
        js_String_def extract_groups_def normalize_subagent_groups_def turn_blocks_of_def)

lemma extract_no_turn:
  assumes "map_of kvs ''turn'' = None"
  shows "extract_groups bi (Some (JObj kvs)) = Inr no_groups"
  using assms
  by (simp add: extract_groups_def normalize_subagent_groups_def normalize_background_tasks_def
        normalize_plan_blocks_def normalize_todo_blocks_def turn_blocks_of_def with_index_def
        subagent_loop_def background_loop_def plan_loop_def todo_loop_def
        nullish_def turn_kind_label_of_def no_groups_def)

lemma skip_no_groups: "all_skip_block_indexes no_groups = {}"
  by (simp add: all_skip_block_indexes_def no_groups_def)

lemma raw_no_turn:
  assumes "map_of kvs ''turn'' = None"
  shows "raw_kind_status bi (Some (JObj kvs))
           = (if to_string_throws (js_or (map_of kvs ''status'') (JStr ''running'')) then Inl TypeError
              else Inr ([], to_string_text (number_to_string bi)
                              (js_or (map_of kvs ''status'') (JStr ''running''))))"
  using assms by (simp add: raw_kind_status_def ed_of_def js_or_def turn_of_def js_String_def)

lemma candidate_no_fields:
  assumes "\<forall>k \<in> set payload_keys. map_of kvs k = None"
  shows "candidate_of bi (Some (JObj kvs)) [] ''running'' S =
     \<lparr>cs_version = JNum (Fin 2), cs_display = JStr ''card_only'', cs_kind = ''final'',
      cs_title = JStr ''Agent output'', cs_caption = JStr [], cs_status = ''running'',
      cs_tool = JStr [], cs_input = JStr [], cs_output = JStr [], cs_blocks = [],
      cs_parallel = None\<rparr>"
  using assms
  by (simp add: candidate_of_def ed_of_def js_or_def turn_of_def nullish_def kind_enum_def
        status_enum_def normalize_turn_blocks_def parallel_of_def Let_def payload_keys_def)

lemma schema_default_candidate:
  "widget_state_schema
     \<lparr>cs_version = JNum (Fin 2), cs_display = JStr ''card_only'', cs_kind = ''final'',
      cs_title = JStr ''Agent output'', cs_caption = JStr [], cs_status = ''running'',
      cs_tool = JStr [], cs_input = JStr [], cs_output = JStr [], cs_blocks = [],
      cs_parallel = None\<rparr> = Some fallback_base"
  by (simp add: widget_state_schema_def zod_int_nonnegative_def is_integer_def zod_enum_def
        kind_enum_def status_enum_def parallel_schema_def fallback_base_def)

lemma normalize_no_fields:
  assumes "\<forall>k \<in> set payload_keys. map_of kvs k = None"
  shows "normalize_extra_data bi (Some (JObj kvs)) = Inr (default_state, [])"
proof -
  have t: "map_of kvs ''turn'' = None" and s: "map_of kvs ''status'' = None"
    using assms by (simp_all add: payload_keys_def)
  have r: "raw_kind_status bi (Some (JObj kvs)) = Inr ([], ''running'')"
    by (simp add: raw_no_turn [OF t] s js_or_def)
  show ?thesis
    unfolding normalize_extra_data_def
    by (simp add: r extract_no_turn [OF t] candidate_no_fields [OF assms] schema_default_candidate
          default_state_def)
qed

lemma normalize_status_only:
  "normalize_extra_data bi (Some (JObj [(''status'', JStr ''running'')])) = Inr (default_state, [])"
proof -
  have r: "raw_kind_status bi (Some (JObj [(''status'', JStr ''running'')])) = Inr ([], ''running'')"
    by (simp add: raw_no_turn js_or_def)
  have "candidate_of bi (Some (JObj [(''status'', JStr ''running'')])) [] ''running'' {} =
     \<lparr>cs_version = JNum (Fin 2), cs_display = JStr ''card_only'', cs_kind = ''final'',
      cs_title = JStr ''Agent output'', cs_caption = JStr [], cs_status = ''running'',
      cs_tool = JStr [], cs_input = JStr [], cs_output = JStr [], cs_blocks = [],
      cs_parallel = None\<rparr>"
    by (simp add: candidate_of_def ed_of_def js_or_def turn_of_def nullish_def kind_enum_def
        status_enum_def normalize_turn_blocks_def parallel_of_def Let_def)
  then show ?thesis
    unfolding normalize_extra_data_def
    by (simp add: r extract_no_turn skip_no_groups schema_default_candidate default_state_def)
qed


lemma default_state_fields:
  "default_state =
     \<lparr>version = 2, display = ''card_only'', kind = ''final'', title = ''Agent output'',
      caption = [], status = ''running'', tool = [], input = [], output_text = [], blocks = [],
      parallel = None, turn_kind = JStr [], turn_kind_label = [],
      has_subagent_groups = False, subagent_section_title = ''Subagents'', subagent_groups = [],
      has_background_tasks = False, background_tasks_section_title = ''Background tasks'',
      background_task_groups = [],
      has_plan_blocks = False, plan_section_title = ''Plan'', plan_groups = [],
      has_todo_blocks = False, todo_section_title = ''Todo'', todo_groups = []\<rparr>"
  by (simp add: default_state_def with_groups_def fallback_base_def no_groups_def
        WidgetBaseState.defs WidgetState.defs)


lemma bad_title_raw:
  "raw_kind_status bi (Some (JObj [(''title'', JNum (Fin 5))])) = Inr ([], ''running'')"
  by (simp add: raw_no_turn js_or_def)

lemma candidate_bad_title:
  "candidate_state_of bi (Some (JObj [(''title'', JNum (Fin 5))])) =
     Inr \<lparr>cs_version = JNum (Fin 2), cs_display = JStr ''card_only'', cs_kind = ''final'',
          cs_title = JNum (Fin 5), cs_caption = JStr [], cs_status = ''running'',
          cs_tool = JStr [], cs_input = JStr [], cs_output = JStr [], cs_blocks = [],
          cs_parallel = None\<rparr>"
  by (simp add: candidate_state_of_def bad_title_raw extract_no_turn skip_no_groups candidate_of_def
        ed_of_def js_or_def turn_of_def nullish_def kind_enum_def status_enum_def
        normalize_turn_blocks_def parallel_of_def Let_def)

lemma schema_bad_title:
  "widget_state_schema
     \<lparr>cs_version = JNum (Fin 2), cs_display = JStr ''card_only'', cs_kind = ''final'',
      cs_title = JNum (Fin 5), cs_caption = JStr [], cs_status = ''running'',
      cs_tool = JStr [], cs_input = JStr [], cs_output = JStr [], cs_blocks = [],
      cs_parallel = None\<rparr> = None"
  by (simp add: widget_state_schema_def zod_int_nonnegative_def is_integer_def zod_enum_def
        kind_enum_def status_enum_def)

lemma normalize_bad_title:
  "normalize_extra_data bi (Some (JObj [(''title'', JNum (Fin 5))]))
     = Inr (default_state, [LogWarn invalid_extra_data])"
  using candidate_bad_title [of bi]
  by (simp add: normalize_via_candidate schema_bad_title extract_no_turn default_state_def)





section \<open>Replacing the payload\<close>

lemma null_event_parses:
  "sp_ai_widget_inbound_event_schema (extra_data_event JNull) = Some (SetExtraData (Some JNull))"
  by (simp add: sp_ai_widget_inbound_event_schema_def extra_data_event_def)

lemma status_event_parses:
  "sp_ai_widget_inbound_event_schema (extra_data_event (JObj [(''status'', JStr ''running'')]))
     = Some (SetExtraData (Some (JObj [(''status'', JStr ''running'')])))"
  by (simp add: sp_ai_widget_inbound_event_schema_def extra_data_event_def)

text \<open>
  C2. A \<open>set_extra_data\<close> event recomputes the state from \<open>event.extra_data\<close> alone: where
  \<open>normalize_extra_data\<close> returns, its result is the new state, the same whatever the
  prior state was. With a payload holding only \<open>status: "running"\<close> the new state is the
  default state, whose output is empty, also when the prior state had status \<open>ok\<close> and
  output \<open>X\<close>. With the payload null, which the event schema lets through, the prior state
  is not replaced: \<open>normalize_extra_data\<close> guards its own reads with \<open>extra_data || {}\<close>
  but hands the payload as it is to the first extractor, which reads \<open>extra_data.turn\<close>
  and throws before the state is assigned. The state with status \<open>ok\<close> and output \<open>X\<close>
  stays, nothing is painted and the error leaves \<open>handle_events\<close>; on the empty object,
  which the guard substitutes for null, the result is the default state.
\<close>

theorem set_extra_data_null_keeps_state:
  "sp_ai_widget_inbound_event_schema (extra_data_event JNull) = Some (SetExtraData (Some JNull)) \<and>
   apply_inbound_event bi sample_state (SetExtraData (Some JNull)) = Inl TypeError \<and>
   handle_events bi sample_state [extra_data_event JNull] = (sample_state, [], Some TypeError) \<and>
   status sample_state = ''ok'' \<and> output_text sample_state = ''X'' \<and>
   ed_of (Some JNull) = JObj [] \<and>
   normalize_extra_data bi (Some (JObj [])) = Inr (default_state, []) \<and>
   apply_inbound_event bi state (SetExtraData extra) = normalize_extra_data bi extra \<and>
   handle_events bi sample_state [extra_data_event (JObj [(''status'', JStr ''running'')])]
     = (default_state, [Render default_state], None) \<and>
   output_text default_state = [] \<and> status default_state = ''running''"
proof -
  have e: "\<forall>k \<in> set payload_keys. map_of ([] :: (string \<times> json) list) k = None" by simp
  show ?thesis
    by (simp add: null_event_parses status_event_parses normalize_throws normalize_status_only
          normalize_no_fields [OF e] handle_events_def default_state_fields sample_state_def
          ed_of_def js_or_def)
qed

theorem set_extra_data_null_keeps_state_witness:
  "handle_events plain_env sample_state [extra_data_event JNull]
     = (sample_state, [], Some TypeError) \<and>
   output_text sample_state = ''X'' \<and>
   handle_events plain_env sample_state
       [extra_data_event (JObj [(''status'', JStr ''running'')])]
     = (default_state, [Render default_state], None) \<and>
   output_text default_state = []"
  using set_extra_data_null_keeps_state [where bi = plain_env]
  by simp

section \<open>Events that fail the schema\<close>

lemma events_loop_drop:
  assumes "sp_ai_widget_inbound_event_schema e = None"
  shows "events_loop bi state (es1 @ e # es2) = events_loop bi state (es1 @ es2)"
  using assms
  by (induction es1 arbitrary: state) (auto split: option.splits sum.splits prod.splits)

lemma events_loop_filter:
  "events_loop bi state es
     = events_loop bi state (filter (\<lambda>e. sp_ai_widget_inbound_event_schema e \<noteq> None) es)"
  by (induction es arbitrary: state) (auto split: option.splits sum.splits prod.splits)

lemma schema_unknown_type:
  assumes "map_of kvs ''type'' = Some (JStr ty)" "ty \<notin> set event_types"
  shows "sp_ai_widget_inbound_event_schema (JObj kvs) = None"
  using assms by (simp add: sp_ai_widget_inbound_event_schema_def event_types_def)

lemma schema_bad_status:
  assumes "map_of kvs ''type'' = Some (JStr ''set_status'')"
    "map_of kvs ''status'' = Some (JStr s)" "s \<notin> set status_enum"
  shows "sp_ai_widget_inbound_event_schema (JObj kvs) = None"
  using assms by (simp add: sp_ai_widget_inbound_event_schema_def zod_enum_def)

text \<open>
  C3. An event that fails the inbound-event schema is skipped: the loop goes on with the
  events after it on the state it had, so the outcome of a list of events is the outcome
  of the list without that event, and of the list of the events that pass the schema.
  Alone, such an event leaves the state as it was (the widget repaints it). An event of
  an unknown type fails the schema, and so does a \<open>set_status\<close> whose status is outside
  the enum, \<open>"bogus"\<close> for one.
\<close>

theorem malformed_event_ignored:
  "(sp_ai_widget_inbound_event_schema e = None \<longrightarrow>
      events_loop bi state (es1 @ e # es2) = events_loop bi state (es1 @ es2) \<and>
      handle_events bi state (es1 @ e # es2) = handle_events bi state (es1 @ es2) \<and>
      handle_events bi state [e] = (state, [Render state], None)) \<and>
   handle_events bi state es
     = handle_events bi state (filter (\<lambda>e. sp_ai_widget_inbound_event_schema e \<noteq> None) es) \<and>
   (map_of kvs ''type'' = Some (JStr ty) \<and> ty \<notin> set event_types \<longrightarrow>
      sp_ai_widget_inbound_event_schema (JObj kvs) = None) \<and>
   (map_of kvs ''type'' = Some (JStr ''set_status'') \<and> map_of kvs ''status'' = Some (JStr s)
      \<and> s \<notin> set status_enum \<longrightarrow> sp_ai_widget_inbound_event_schema (JObj kvs) = None) \<and>
   sp_ai_widget_inbound_event_schema (status_event ''bogus'') = None"
proof (intro conjI impI)
  assume h: "sp_ai_widget_inbound_event_schema e = None"
  show "events_loop bi state (es1 @ e # es2) = events_loop bi state (es1 @ es2)"
    by (rule events_loop_drop [OF h])
  then show "handle_events bi state (es1 @ e # es2) = handle_events bi state (es1 @ es2)"
    by (simp add: handle_events_def)
  show "handle_events bi state [e] = (state, [Render state], None)"
    using h by (simp add: handle_events_def)
next
  show "handle_events bi state es
     = handle_events bi state (filter (\<lambda>e. sp_ai_widget_inbound_event_schema e \<noteq> None) es)"
    unfolding handle_events_def using events_loop_filter [of bi state es] by simp
next
  assume "map_of kvs ''type'' = Some (JStr ty) \<and> ty \<notin> set event_types"
  then show "sp_ai_widget_inbound_event_schema (JObj kvs) = None"
    using schema_unknown_type by blast
next
  assume "map_of kvs ''type'' = Some (JStr ''set_status'') \<and> map_of kvs ''status'' = Some (JStr s)
      \<and> s \<notin> set status_enum"
  then show "sp_ai_widget_inbound_event_schema (JObj kvs) = None"
    using schema_bad_status by blast
next
  show "sp_ai_widget_inbound_event_schema (status_event ''bogus'') = None"
    by (simp add: sp_ai_widget_inbound_event_schema_def status_event_def zod_enum_def
          status_enum_def)
qed

theorem malformed_event_ignored_witness:
  "sp_ai_widget_inbound_event_schema (status_event ''bogus'') = None \<and>
   handle_events plain_env sample_state [status_event ''bogus'']
     = (sample_state, [Render sample_state], None) \<and>
   handle_events plain_env sample_state
       ([append_event ''a''] @ status_event ''bogus'' # [append_event ''b''])
     = handle_events plain_env sample_state ([append_event ''a''] @ [append_event ''b'']) \<and>
   sp_ai_widget_inbound_event_schema (JObj [(''type'', JStr ''explode'')]) = None"
proof -
  note t = malformed_event_ignored
    [where bi = plain_env and state = sample_state and e = "status_event ''bogus''"
       and ?es1.0 = "[append_event ''a'']" and ?es2.0 = "[append_event ''b'']"
       and kvs = "[(''type'', JStr ''explode'')]" and ty = "''explode''"]
  have h: "sp_ai_widget_inbound_event_schema (status_event ''bogus'') = None"
    using t by blast
  have k: "map_of [(''type'', JStr ''explode'')] ''type'' = Some (JStr ''explode'')
      \<and> ''explode'' \<notin> set event_types"
    by (simp add: event_types_def)
  from t h k show ?thesis by blast
qed

section \<open>Activation with a null payload\<close>

text \<open>
  C9. Activated with \<open>extra_data\<close> equal to null, the widget builds no state: it logs one
  error and returns the handler that does nothing, whatever events it is called with, and
  nothing is painted. A payload that is not null is normalised instead: \<open>activate\<close> ends
  as \<open>normalize_extra_data\<close> does on it, with a handler over the state it returns and a
  first paint, or with the error it throws, and never with the handler that does
  nothing. So the malformed payload \<open>{title: 5}\<close> gets the safe default state, with a
  warning.
\<close>

theorem activate_null_is_noop:
  "activate bi \<lparr>widget_type = ''sp_ai'', extra_data = JNull\<rparr>
     = Inr (Noop, [LogError invalid_extra_data]) \<and>
   call_handler bi Noop events = (Noop, [], None) \<and>
   (payload \<noteq> JNull \<longrightarrow>
      activate bi \<lparr>widget_type = ''sp_ai'', extra_data = payload\<rparr>
        = (case normalize_extra_data bi (Some payload) of
             Inl e \<Rightarrow> Inl e
           | Inr (state, effs) \<Rightarrow> Inr (Live state, effs @ [Render state])) \<and>
      (\<forall>effs. activate bi \<lparr>widget_type = ''sp_ai'', extra_data = payload\<rparr> \<noteq> Inr (Noop, effs))) \<and>
   activate bi \<lparr>widget_type = ''sp_ai'', extra_data = JObj [(''title'', JNum (Fin 5))]\<rparr>
     = Inr (Live default_state, [LogWarn invalid_extra_data, Render default_state])"
proof (intro conjI impI)
  show "activate bi \<lparr>widget_type = ''sp_ai'', extra_data = JNull\<rparr>
     = Inr (Noop, [LogError invalid_extra_data])"
    by (simp add: activate_def)
  show "call_handler bi Noop events = (Noop, [], None)" by simp
  show "activate bi \<lparr>widget_type = ''sp_ai'', extra_data = JObj [(''title'', JNum (Fin 5))]\<rparr>
     = Inr (Live default_state, [LogWarn invalid_extra_data, Render default_state])"
    by (simp add: activate_def normalize_bad_title)
next
  assume h: "payload \<noteq> JNull"
  then show eq: "activate bi \<lparr>widget_type = ''sp_ai'', extra_data = payload\<rparr>
        = (case normalize_extra_data bi (Some payload) of
             Inl e \<Rightarrow> Inl e
           | Inr (state, effs) \<Rightarrow> Inr (Live state, effs @ [Render state]))"
    by (simp add: activate_def)
  show "\<forall>effs. activate bi \<lparr>widget_type = ''sp_ai'', extra_data = payload\<rparr> \<noteq> Inr (Noop, effs)"
    unfolding eq by (auto split: sum.splits prod.splits)
qed

theorem activate_null_is_noop_witness:
  "activate plain_env \<lparr>widget_type = ''sp_ai'', extra_data = JNull\<rparr>
     = Inr (Noop, [LogError invalid_extra_data]) \<and>
   call_handler plain_env Noop [append_event ''a'', status_event ''ok''] = (Noop, [], None) \<and>
   JObj [] \<noteq> JNull \<and>
   activate plain_env \<lparr>widget_type = ''sp_ai'', extra_data = JObj []\<rparr>
     = Inr (Live default_state, [Render default_state]) \<and>
   activate plain_env \<lparr>widget_type = ''sp_ai'', extra_data = JObj [(''title'', JNum (Fin 5))]\<rparr>
     = Inr (Live default_state, [LogWarn invalid_extra_data, Render default_state])"
proof -
  have e: "\<forall>k \<in> set payload_keys. map_of ([] :: (string \<times> json) list) k = None" by simp
  have n: "normalize_extra_data plain_env (Some (JObj [])) = Inr (default_state, [])"
    by (rule normalize_no_fields [OF e])
  show ?thesis
    using activate_null_is_noop
      [where bi = plain_env and events = "[append_event ''a'', status_event ''ok'']"
         and payload = "JObj []"]
    by (simp add: n)
qed

section \<open>The order and the indices of the generic blocks\<close>

lemma b_index_normalize_block: "b_index (normalize_block bi index raw) = index"
  by (simp add: normalize_block_def Let_def)

lemma map_filter_enumerate_index:
  "map b_index
     (List.map_filter
        (\<lambda>(index, raw). if A index then None else if B raw then None
                          else Some (normalize_block bi index raw))
        (enumerate n xs))
   = map fst (filter (\<lambda>(index, raw). \<not> A index \<and> \<not> B raw) (enumerate n xs))"
  by (induction xs arbitrary: n) (simp_all add: List.map_filter_def b_index_normalize_block)

lemma filter_enumerate_upt:
  "map fst (filter (\<lambda>(i, x). Q i x) (enumerate n xs))
     = filter (\<lambda>i. Q i (xs ! (i - n))) [n..<n + length xs]"
proof (induction xs arbitrary: n)
  case Nil
  then show ?case by simp
next
  case (Cons x xs)
  have upt: "[n..<n + length (x # xs)] = n # [Suc n..<Suc n + length xs]"
    by (simp add: upt_conv_Cons del: upt_Suc)
  have tl: "filter (\<lambda>i. Q i ((x # xs) ! (i - n))) [Suc n..<Suc n + length xs]
      = filter (\<lambda>i. Q i (xs ! (i - Suc n))) [Suc n..<Suc n + length xs]"
  proof (rule filter_cong [OF refl])
    fix i assume "i \<in> set [Suc n..<Suc n + length xs]"
    then have "i - n = Suc (i - Suc n)" by auto
    then show "Q i ((x # xs) ! (i - n)) = Q i (xs ! (i - Suc n))" by simp
  qed
  show ?case
    unfolding upt using Cons.IH [of "Suc n"] tl by (simp del: upt_Suc)
qed

lemma emitted_indices_eq:
  "emitted_indices bi xs skip
     = filter (\<lambda>i. i \<notin> skip \<and> is_object_entry (xs ! i)) [0..<length xs]"
proof -
  have "emitted_indices bi xs skip
      = map fst (filter (\<lambda>(index, raw). \<not> index \<in> skip \<and> \<not> \<not> is_object_entry raw) (enumerate 0 xs))"
    unfolding emitted_indices_def normalize_turn_blocks_def with_index_def block_skipped_def
    using map_filter_enumerate_index [of "\<lambda>index. index \<in> skip" "\<lambda>raw. \<not> is_object_entry raw" bi 0 xs]
    by simp
  also have "\<dots> = filter (\<lambda>i. \<not> i \<in> skip \<and> \<not> \<not> is_object_entry (xs ! (i - 0))) [0..<0 + length xs]"
    by (rule filter_enumerate_upt)
  finally show ?thesis by simp
qed

lemma removed_indices_eq:
  "removed_indices bi xs skip
     = filter (\<lambda>i. i \<in> skip \<or> \<not> is_object_entry (xs ! i)) [0..<length xs]"
  unfolding removed_indices_def emitted_indices_eq
  by (rule filter_cong) auto

lemma emitted_sorted: "sorted_wrt (<) (emitted_indices bi xs skip)"
  unfolding emitted_indices_eq by (rule sorted_wrt_filter) simp

text \<open>
  C4, as stated, fails: an entry of the block array that is not an object (a string, a
  number, a boolean, null) is left out by the guard \<open>!raw || typeof raw !== "object"\<close>
  although no extractor consumed it. The array \<open>["x"]\<close> with the empty skip set emits no
  block, so index 0 is removed and not consumed.
\<close>

theorem removed_not_only_consumed_counterexample:
  "normalize_turn_blocks plain_env (Some (JArr [JStr ''x''])) (Some {}) = [] \<and>
   removed_indices plain_env [JStr ''x''] {} = [0] \<and>
   consumed_indices [JStr ''x''] {} = [] \<and>
   removed_indices plain_env [JStr ''x''] {} \<noteq> consumed_indices [JStr ''x''] {}"
  by (simp add: removed_indices_eq consumed_indices_def is_object_entry_def
        normalize_turn_blocks_def with_index_def block_skipped_def List.map_filter_def)

text \<open>
  C4, amended. The \<open>index\<close> values of the emitted blocks are the indices of the array,
  in increasing order, that are not in the skip set and whose entry is an object (an
  array counts as one): a strictly increasing sequence of indices of the array. The
  removed indices are exactly those in the skip set together with those of the entries
  that are not objects; when every entry is an object, as the turn schema requires of a
  creation payload, they are exactly the indices in the skip set.
\<close>

theorem emitted_block_indices:
  "emitted_indices bi xs skip
     = filter (\<lambda>i. i \<notin> skip \<and> is_object_entry (xs ! i)) [0..<length xs] \<and>
   sorted_wrt (<) (emitted_indices bi xs skip) \<and>
   set (emitted_indices bi xs skip) \<subseteq> {0..<length xs} \<and>
   removed_indices bi xs skip
     = filter (\<lambda>i. i \<in> skip \<or> \<not> is_object_entry (xs ! i)) [0..<length xs] \<and>
   ((\<forall>x \<in> set xs. is_object_entry x) \<longrightarrow> removed_indices bi xs skip = consumed_indices xs skip)"
proof (intro conjI impI)
  show "emitted_indices bi xs skip
     = filter (\<lambda>i. i \<notin> skip \<and> is_object_entry (xs ! i)) [0..<length xs]"
    by (rule emitted_indices_eq)
  show "sorted_wrt (<) (emitted_indices bi xs skip)" by (rule emitted_sorted)
  show "set (emitted_indices bi xs skip) \<subseteq> {0..<length xs}"
    unfolding emitted_indices_eq by auto
  show "removed_indices bi xs skip
     = filter (\<lambda>i. i \<in> skip \<or> \<not> is_object_entry (xs ! i)) [0..<length xs]"
    by (rule removed_indices_eq)
next
  assume "\<forall>x \<in> set xs. is_object_entry x"
  then show "removed_indices bi xs skip = consumed_indices xs skip"
    unfolding removed_indices_eq consumed_indices_def
    by (intro filter_cong) auto
qed

theorem emitted_block_indices_witness:
  "emitted_indices plain_env [JObj [], JStr ''x'', JObj [], JNull, JArr []] {0} = [2, 4] \<and>
   removed_indices plain_env [JObj [], JStr ''x'', JObj [], JNull, JArr []] {0} = [0, 1, 3] \<and>
   list_all is_object_entry [JObj [], JObj []] \<and>
   removed_indices plain_env [JObj [], JObj []] {1} = consumed_indices [JObj [], JObj []] {1}"
proof -
  note t = emitted_block_indices
    [where bi = plain_env and xs = "[JObj [], JStr ''x'', JObj [], JNull, JArr []]" and skip = "{0}"]
  note u = emitted_block_indices [where bi = plain_env and xs = "[JObj [], JObj []]" and skip = "{1}"]
  have h: "\<forall>x \<in> set [JObj [], JObj []]. is_object_entry x"
    by (simp add: is_object_entry_def)
  have e: "filter (\<lambda>i. i \<notin> {0} \<and> is_object_entry ([JObj [], JStr ''x'', JObj [], JNull, JArr []] ! i))
             [0..<length [JObj [], JStr ''x'', JObj [], JNull, JArr []]] = [2, 4]"
    by (simp add: is_object_entry_def upt_rec)
  have r: "filter (\<lambda>i. i \<in> {0} \<or> \<not> is_object_entry ([JObj [], JStr ''x'', JObj [], JNull, JArr []] ! i))
             [0..<length [JObj [], JStr ''x'', JObj [], JNull, JArr []]] = [0, 1, 3]"
    by (simp add: is_object_entry_def upt_rec)
  have a: "emitted_indices plain_env [JObj [], JStr ''x'', JObj [], JNull, JArr []] {0} = [2, 4]"
    using t [THEN conjunct1] e by (rule trans)
  have b: "removed_indices plain_env [JObj [], JStr ''x'', JObj [], JNull, JArr []] {0} = [0, 1, 3]"
    using t [THEN conjunct2, THEN conjunct2, THEN conjunct2, THEN conjunct1] r by (rule trans)
  have c: "removed_indices plain_env [JObj [], JObj []] {1} = consumed_indices [JObj [], JObj []] {1}"
    using u [THEN conjunct2, THEN conjunct2, THEN conjunct2, THEN conjunct2] h by (rule mp)
  have l: "list_all is_object_entry [JObj [], JObj []]"
    using h by (simp add: list_all_iff)
  from a b l c show ?thesis by (intro conjI)
qed

section \<open>Empty groups\<close>

lemma zod_optional_cases:
  "zod_optional p None = Some None"
  "zod_optional p (Some v) = map_option Some (p v)"
  by (simp_all add: zod_optional_def)

lemma subagent_step_empty:
  assumes "absent_or b ''agents'' (JArr [])" "absent_or b ''text'' (JStr [])"
  shows "subagent_step bi (i, b) acc = acc"
proof (cases "sp_ai_subagent_group_block_schema b")
  case None
  then show ?thesis by (simp add: subagent_step_def split: prod.splits)
next
  case (Some parsed)
  have "opt_or (sg_agents parsed) [] = [] \<and> opt_or (sg_text parsed) [] = []"
    using Some assms
    by (auto simp: sp_ai_subagent_group_block_schema_def absent_or_def zod_optional_cases opt_or_def
          Option.bind_eq_Some_conv split: if_splits)
  then show ?thesis using Some by (simp add: subagent_step_def split: prod.splits)
qed

lemma those_map_id:
  assumes "\<And>x y. p x = Some y \<Longrightarrow> y = x"
  shows "those (map p xs) = Some ys \<Longrightarrow> ys = xs"
proof (induction xs arbitrary: ys)
  case Nil
  then show ?case by simp
next
  case (Cons x xs)
  then show ?case using assms by (auto split: option.splits)
qed

lemma task_schema_id: "sp_ai_background_task_schema x = Some y \<Longrightarrow> y = x"
  by (auto simp: sp_ai_background_task_schema_def Option.bind_eq_Some_conv split: if_splits)

lemma parsed_tasks:
  assumes "sp_ai_background_tasks_block_schema b = Some parsed"
  shows "opt_or (bt_tasks parsed) [] = array_or_empty (get_prop b ''tasks'')"
proof (cases "get_prop b ''tasks''")
  case None
  then show ?thesis using assms
    by (auto simp: sp_ai_background_tasks_block_schema_def zod_optional_cases opt_or_def
          array_or_empty_def Option.bind_eq_Some_conv split: if_splits)
next
  case (Some v)
  then obtain ts where ts: "zod_array sp_ai_background_task_schema v = Some ts" "bt_tasks parsed = Some ts"
    using assms
    by (auto simp: sp_ai_background_tasks_block_schema_def zod_optional_cases
          Option.bind_eq_Some_conv split: if_splits)
  then obtain xs where v: "v = JArr xs" by (cases v) simp_all
  with ts have "ts = xs" using those_map_id [of sp_ai_background_task_schema xs ts] task_schema_id
    by auto
  then show ?thesis using ts v Some by (simp add: opt_or_def array_or_empty_def)
qed

lemma empty_task_dropped:
  assumes "empty_task t"
  shows "\<not> task_kept (normalize_task bi (n, t))"
proof -
  have "\<And>k. absent_or t k (JStr []) \<Longrightarrow> string_or (get_prop (as_record t) k) [] = []"
    by (auto simp: absent_or_def as_record_def string_or_def)
  then show ?thesis using assms
    by (simp add: empty_task_def task_kept_def normalize_task_def Let_def split: prod.splits)
qed

lemma with_index_set: "(n, t) \<in> set (with_index xs) \<Longrightarrow> t \<in> set xs"
  by (auto simp: with_index_def in_set_enumerate_eq)

lemma background_step_empty:
  assumes "\<forall>t \<in> set (array_or_empty (get_prop b ''tasks'')). empty_task t"
  shows "background_step bi (i, b) acc = acc"
proof (cases "sp_ai_background_tasks_block_schema b")
  case None
  then show ?thesis by (simp add: background_step_def split: prod.splits)
next
  case (Some parsed)
  let ?raw = "opt_or (bt_tasks parsed) []"
  have raw: "?raw = array_or_empty (get_prop b ''tasks'')" by (rule parsed_tasks [OF Some])
  have "filter task_kept (map (normalize_task bi) (with_index ?raw)) = []"
  proof -
    have "\<forall>x \<in> set (with_index ?raw). \<not> task_kept (normalize_task bi x)"
    proof
      fix x assume x: "x \<in> set (with_index ?raw)"
      obtain n t where nt: "x = (n, t)" by (cases x)
      with x have "t \<in> set ?raw" using with_index_set by fast
      then have "empty_task t" using assms raw by simp
      then show "\<not> task_kept (normalize_task bi x)" using nt empty_task_dropped by simp
    qed
    then show ?thesis by (simp add: filter_empty_conv)
  qed
  then show ?thesis using Some by (simp add: background_step_def Let_def split: prod.splits)
qed

lemma foldl_content_shift:
  fixes f :: "nat \<times> 'b \<Rightarrow> 'acc \<Rightarrow> 'acc" and g :: "'acc \<Rightarrow> 'c"
  assumes step: "\<And>i j b a a'. g a = g a' \<Longrightarrow> g (f (i, b) a) = g (f (j, b) a')"
  shows "g a = g a' \<Longrightarrow>
         g (foldl (\<lambda>acc ib. f ib acc) a (enumerate n xs)) = g (foldl (\<lambda>acc ib. f ib acc) a' (enumerate m xs))"
proof (induction xs arbitrary: a a' n m)
  case Nil
  then show ?case by simp
next
  case (Cons x xs)
  have "g (f (n, x) a) = g (f (m, x) a')" using Cons.prems by (rule step)
  then show ?case using Cons.IH by simp
qed

lemma foldl_skip_absent:
  fixes f :: "nat \<times> 'b \<Rightarrow> 'acc \<Rightarrow> 'acc" and s :: "'acc \<Rightarrow> nat set"
  assumes grow: "\<And>i b a. s (f (i, b) a) \<subseteq> insert i (s a)"
  shows "i0 \<notin> s a \<Longrightarrow> (\<And>i b a. (i, b) \<in> set l \<Longrightarrow> i = i0 \<Longrightarrow> f (i, b) a = a) \<Longrightarrow>
         i0 \<notin> s (foldl (\<lambda>acc ib. f ib acc) a l)"
proof (induction l arbitrary: a)
  case Nil
  then show ?case by simp
next
  case (Cons p l)
  obtain i b where p: "p = (i, b)" by (cases p)
  have "i0 \<notin> s (f (i, b) a)"
  proof (cases "i = i0")
    case True
    then have "f (i, b) a = a" using Cons.prems(2) [of i b a] p by simp
    then show ?thesis using Cons.prems(1) by simp
  next
    case False
    then show ?thesis using grow [of i b a] Cons.prems(1) by auto
  qed
  moreover have "\<And>i b a. (i, b) \<in> set l \<Longrightarrow> i = i0 \<Longrightarrow> f (i, b) a = a"
    using Cons.prems(2) by simp
  ultimately show ?case using Cons.IH [of "f (i, b) a"] p by simp
qed

lemma loop_without_block:
  fixes f :: "nat \<times> 'b \<Rightarrow> 'acc \<Rightarrow> 'acc" and g :: "'acc \<Rightarrow> 'c"
  assumes step: "\<And>i j b a a'. g a = g a' \<Longrightarrow> g (f (i, b) a) = g (f (j, b) a')"
    and skip: "\<And>a. f (length xs, b) a = a"
  shows "g (foldl (\<lambda>acc ib. f ib acc) a (enumerate 0 (xs @ b # ys)))
       = g (foldl (\<lambda>acc ib. f ib acc) a (enumerate 0 (xs @ ys)))"
proof -
  let ?F = "\<lambda>acc ib. f ib acc"
  let ?a1 = "foldl ?F a (enumerate 0 xs)"
  have "foldl ?F a (enumerate 0 (xs @ b # ys)) = foldl ?F (f (length xs, b) ?a1) (enumerate (Suc (length xs)) ys)"
    by (simp add: enumerate_append_eq)
  also have "\<dots> = foldl ?F ?a1 (enumerate (Suc (length xs)) ys)" by (simp add: skip)
  finally have "g (foldl ?F a (enumerate 0 (xs @ b # ys))) = g (foldl ?F ?a1 (enumerate (Suc (length xs)) ys))"
    by simp
  also have "\<dots> = g (foldl ?F ?a1 (enumerate (length xs) ys))"
    by (rule foldl_content_shift [of g f, OF step]) simp_all
  also have "\<dots> = g (foldl ?F a (enumerate 0 (xs @ ys)))" by (simp add: enumerate_append_eq)
  finally show ?thesis .
qed

lemma loop_block_not_skipped:
  fixes f :: "nat \<times> 'b \<Rightarrow> 'acc \<Rightarrow> 'acc" and s :: "'acc \<Rightarrow> nat set"
  assumes grow: "\<And>i b a. s (f (i, b) a) \<subseteq> insert i (s a)"
    and skip: "\<And>a. f (length xs, b) a = a"
    and init: "length xs \<notin> s a"
  shows "length xs \<notin> s (foldl (\<lambda>acc ib. f ib acc) a (enumerate 0 (xs @ b # ys)))"
proof (rule foldl_skip_absent [of s f, OF grow init])
  fix i b' a'
  assume "(i, b') \<in> set (enumerate 0 (xs @ b # ys))" and "i = length xs"
  then have "b' = b" by (auto simp: in_set_enumerate_eq)
  then show "f (i, b') a' = a'" using skip \<open>i = length xs\<close> by simp
qed

lemma subagent_step_content:
  "fst a = fst a' \<Longrightarrow> fst (subagent_step bi (i, b) a) = fst (subagent_step bi (j, b) a')"
  by (cases a; cases a') (simp add: subagent_step_def Let_def split: option.splits)

lemma subagent_step_grow: "snd (subagent_step bi (i, b) a) \<subseteq> insert i (snd a)"
  by (cases a) (auto simp: subagent_step_def Let_def split: option.splits)

lemma background_step_content:
  "(fst a, snd (snd a)) = (fst a', snd (snd a')) \<Longrightarrow>
   (fst (background_step bi (i, b) a), snd (snd (background_step bi (i, b) a)))
     = (fst (background_step bi (j, b) a'), snd (snd (background_step bi (j, b) a')))"
  by (cases a; cases a') (auto simp: background_step_def Let_def split: option.splits)

lemma background_step_grow:
  "fst (snd (background_step bi (i, b) a)) \<subseteq> insert i (fst (snd a))"
  by (cases a) (auto simp: background_step_def Let_def split: option.splits)

lemma subagent_loop_without:
  assumes "absent_or b ''agents'' (JArr [])" "absent_or b ''text'' (JStr [])"
  shows "fst (subagent_loop bi (xs @ b # ys)) = fst (subagent_loop bi (xs @ ys))"
    and "length xs \<notin> snd (subagent_loop bi (xs @ b # ys))"
proof -
  have skip: "\<And>a. subagent_step bi (length xs, b) a = a"
    using assms by (rule subagent_step_empty)
  show "fst (subagent_loop bi (xs @ b # ys)) = fst (subagent_loop bi (xs @ ys))"
    unfolding subagent_loop_def with_index_def
    by (rule loop_without_block [of fst "subagent_step bi", OF subagent_step_content skip])
  show "length xs \<notin> snd (subagent_loop bi (xs @ b # ys))"
    unfolding subagent_loop_def with_index_def
    by (rule loop_block_not_skipped [of snd "subagent_step bi", OF subagent_step_grow skip]) simp
qed

lemma background_loop_without:
  assumes "\<forall>t \<in> set (array_or_empty (get_prop b ''tasks'')). empty_task t"
  shows "fst (background_loop bi (xs @ b # ys)) = fst (background_loop bi (xs @ ys))"
    and "length xs \<notin> fst (snd (background_loop bi (xs @ b # ys)))"
proof -
  have skip: "\<And>a. background_step bi (length xs, b) a = a"
    using assms by (rule background_step_empty)
  have "(\<lambda>a. (fst a, snd (snd a))) (background_loop bi (xs @ b # ys))
      = (\<lambda>a. (fst a, snd (snd a))) (background_loop bi (xs @ ys))"
    unfolding background_loop_def with_index_def
    by (rule loop_without_block [of "\<lambda>a. (fst a, snd (snd a))" "background_step bi",
          OF background_step_content skip])
  then show "fst (background_loop bi (xs @ b # ys)) = fst (background_loop bi (xs @ ys))"
    by simp
  show "length xs \<notin> fst (snd (background_loop bi (xs @ b # ys)))"
    unfolding background_loop_def with_index_def
    by (rule loop_block_not_skipped [of "\<lambda>a. fst (snd a)" "background_step bi",
          OF background_step_grow skip]) simp
qed

lemma normalize_subagent_groups_loop:
  assumes "turn_blocks_of ed = Inr bs"
  shows "\<exists>r. normalize_subagent_groups bi ed = Inr r \<and> sr_groups r = fst (subagent_loop bi bs)
           \<and> sr_skip_block_indexes r = snd (subagent_loop bi bs)"
  using assms by (simp add: normalize_subagent_groups_def Let_def split: prod.splits)

lemma normalize_background_tasks_loop:
  assumes "turn_blocks_of ed = Inr bs"
  shows "\<exists>r. normalize_background_tasks bi ed = Inr r \<and> bk_groups r = fst (background_loop bi bs)
           \<and> bk_skip_block_indexes r = fst (snd (background_loop bi bs))"
  using assms by (simp add: normalize_background_tasks_def Let_def split: prod.splits)

text \<open>
  C8. A block whose \<open>agents\<close> is absent or empty and whose \<open>text\<close> is absent or \<open>""\<close>
  contributes no subagent group and is not marked consumed: alone it gives no group, and
  inside any block array the groups are those of the array without it, its index not in
  the skip set. A block all of whose tasks have command, description, output preview
  and error absent or \<open>""\<close> contributes no background-task group and is not marked
  consumed, in the same sense. Both hold for \<open>normalize_subagent_groups\<close> and
  \<open>normalize_background_tasks\<close> on every payload with such a block in its turn.
\<close>

theorem empty_groups_suppressed:
  "(absent_or b ''agents'' (JArr []) \<and> absent_or b ''text'' (JStr []) \<longrightarrow>
      subagent_loop bi [b] = ([], {}) \<and>
      fst (subagent_loop bi (xs @ b # ys)) = fst (subagent_loop bi (xs @ ys)) \<and>
      length xs \<notin> snd (subagent_loop bi (xs @ b # ys)) \<and>
      (turn_blocks_of ed = Inr (xs @ b # ys) \<longrightarrow>
         (\<exists>r. normalize_subagent_groups bi ed = Inr r \<and>
              sr_groups r = fst (subagent_loop bi (xs @ ys)) \<and>
              length xs \<notin> sr_skip_block_indexes r))) \<and>
   ((\<forall>t \<in> set (array_or_empty (get_prop b ''tasks'')). empty_task t) \<longrightarrow>
      background_loop bi [b] = ([], {}, 0) \<and>
      fst (background_loop bi (xs @ b # ys)) = fst (background_loop bi (xs @ ys)) \<and>
      length xs \<notin> fst (snd (background_loop bi (xs @ b # ys))) \<and>
      (turn_blocks_of ed = Inr (xs @ b # ys) \<longrightarrow>
         (\<exists>r. normalize_background_tasks bi ed = Inr r \<and>
              bk_groups r = fst (background_loop bi (xs @ ys)) \<and>
              length xs \<notin> bk_skip_block_indexes r)))"
proof (intro conjI impI)
  assume h: "absent_or b ''agents'' (JArr []) \<and> absent_or b ''text'' (JStr [])"
  then have e: "\<And>i a. subagent_step bi (i, b) a = a" using subagent_step_empty by blast
  show "subagent_loop bi [b] = ([], {})"
    by (simp add: subagent_loop_def with_index_def e)
  show w: "fst (subagent_loop bi (xs @ b # ys)) = fst (subagent_loop bi (xs @ ys))"
    using h subagent_loop_without(1) by blast
  show n: "length xs \<notin> snd (subagent_loop bi (xs @ b # ys))"
    using h subagent_loop_without(2) by blast
  assume "turn_blocks_of ed = Inr (xs @ b # ys)"
  then show "\<exists>r. normalize_subagent_groups bi ed = Inr r \<and>
              sr_groups r = fst (subagent_loop bi (xs @ ys)) \<and>
              length xs \<notin> sr_skip_block_indexes r"
    using normalize_subagent_groups_loop [of ed "xs @ b # ys" bi] w n by auto
next
  assume h: "\<forall>t \<in> set (array_or_empty (get_prop b ''tasks'')). empty_task t"
  then have e: "\<And>i a. background_step bi (i, b) a = a" using background_step_empty by blast
  show "background_loop bi [b] = ([], {}, 0)"
    by (simp add: background_loop_def with_index_def e)
  show w: "fst (background_loop bi (xs @ b # ys)) = fst (background_loop bi (xs @ ys))"
    using h background_loop_without(1) by blast
  show n: "length xs \<notin> fst (snd (background_loop bi (xs @ b # ys)))"
    using h background_loop_without(2) by blast
  assume "turn_blocks_of ed = Inr (xs @ b # ys)"
  then show "\<exists>r. normalize_background_tasks bi ed = Inr r \<and>
              bk_groups r = fst (background_loop bi (xs @ ys)) \<and>
              length xs \<notin> bk_skip_block_indexes r"
    using normalize_background_tasks_loop [of ed "xs @ b # ys" bi] w n by auto
qed

theorem empty_groups_suppressed_witness:
  "(absent_or empty_subagent_block ''agents'' (JArr [])
      \<and> absent_or empty_subagent_block ''text'' (JStr [])) \<and>
   subagent_loop plain_env [empty_subagent_block] = ([], {}) \<and>
   list_all empty_task (array_or_empty (get_prop empty_background_block ''tasks'')) \<and>
   background_loop plain_env [empty_background_block] = ([], {}, 0)"
proof -
  have h1: "absent_or empty_subagent_block ''agents'' (JArr [])
      \<and> absent_or empty_subagent_block ''text'' (JStr [])"
    by (simp add: absent_or_def empty_subagent_block_def)
  have h2: "\<forall>t \<in> set (array_or_empty (get_prop empty_background_block ''tasks'')). empty_task t"
    by (simp add: empty_background_block_def array_or_empty_def empty_task_def absent_or_def)
  from h1 have "subagent_loop plain_env [empty_subagent_block] = ([], {})"
    using empty_groups_suppressed [where b = empty_subagent_block and bi = plain_env] by blast
  moreover from h2 have "background_loop plain_env [empty_background_block] = ([], {}, 0)"
    using empty_groups_suppressed [where b = empty_background_block and bi = plain_env] by blast
  moreover have "list_all empty_task (array_or_empty (get_prop empty_background_block ''tasks''))"
    using h2 by (simp add: list_all_iff)
  ultimately show ?thesis using h1 by blast
qed

end
